theory Spec2Isabelle
  imports Main "HOL-Library.Sublist"
begin

section \<open>Errors\<close>

text \<open>
  Go errors are values. The orchestrator builds its own with \<^verbatim>\<open>fmt.Errorf\<close>; an error is
  kept as the format string with its operands, and the \<^verbatim>\<open>%w\<close> operand (the wrapped error)
  apart, so that no rendering of \<^verbatim>\<open>%q\<close> or \<^verbatim>\<open>%s\<close> has to be assumed. Errors of the
  operating system are \<^verbatim>\<open>*fs.PathError\<close> values; errors of the collaborators (clone,
  container) are opaque.
\<close>

datatype errno = ENOENT | EEXIST | EACCES | ENOTDIR | EIO

datatype error =
    Errorf string "string list"
  | ErrorfW string "string list" error
  | PathError string string errno
  | External string

text \<open>\<^verbatim>\<open>os.IsNotExist\<close>: false on nil, looks through a \<^verbatim>\<open>PathError\<close> only (not through \<^verbatim>\<open>%w\<close>).\<close>

fun os_IsNotExist :: "error option \<Rightarrow> bool" where
  "os_IsNotExist None = False"
| "os_IsNotExist (Some (PathError opn p e)) = (e = ENOENT)"
| "os_IsNotExist (Some (Errorf f args)) = False"
| "os_IsNotExist (Some (ErrorfW f args e)) = False"
| "os_IsNotExist (Some (External m)) = False"


text \<open>The format string of an error built by the orchestrator (empty for the others).\<close>

fun format_of :: "error \<Rightarrow> string" where
  "format_of (Errorf f args) = f"
| "format_of (ErrorfW f args e) = f"
| "format_of (PathError opn p e) = []"
| "format_of (External m) = []"

section \<open>Timestamps and their layout\<close>

text \<open>
  A \<^verbatim>\<open>time.Time\<close> is an instant read in a location. It is kept as the wall-clock
  reading that \<^verbatim>\<open>Format\<close> prints, with the offset of the location from UTC in seconds.
\<close>

record Time =
  year :: int
  month :: nat
  day :: nat
  hour :: nat
  minute :: nat
  second :: nat
  nanosecond :: nat
  utc_offset :: int

definition valid_time :: "Time \<Rightarrow> bool" where
  "valid_time t = (1 \<le> month t \<and> month t \<le> 12 \<and> 1 \<le> day t \<and> day t \<le> 31 \<and>
     hour t < 24 \<and> minute t < 60 \<and> second t < 60 \<and> nanosecond t < 1000000000)"

text \<open>Days from 1970-01-01 to a date of the proleptic Gregorian calendar.\<close>

definition days_from_civil :: "int \<Rightarrow> nat \<Rightarrow> nat \<Rightarrow> int" where
  "days_from_civil y m d =
     (let y' = (if m \<le> 2 then y - 1 else y);
          era = y' div 400;
          yoe = y' - era * 400;
          mp = (if m > 2 then int m - 3 else int m + 9);
          doy = (153 * mp + 2) div 5 + int d - 1;
          doe = yoe * 365 + yoe div 4 - yoe div 100 + doy
      in era * 146097 + doe - 719468)"

text \<open>The instant of a timestamp: \<^verbatim>\<open>t.Unix()\<close> and \<^verbatim>\<open>t.UnixNano()\<close>.\<close>

definition unix_seconds :: "Time \<Rightarrow> int" where
  "unix_seconds t =
     days_from_civil (year t) (month t) (day t) * 86400
       + int (hour t) * 3600 + int (minute t) * 60 + int (second t) - utc_offset t"

definition unix_nanos :: "Time \<Rightarrow> int" where
  "unix_nanos t = unix_seconds t * 1000000000 + int (nanosecond t)"

text \<open>The reading of a timestamp down to the second.\<close>

definition second_reading :: "Time \<Rightarrow> int \<times> nat \<times> nat \<times> nat \<times> nat \<times> nat" where
  "second_reading t = (year t, month t, day t, hour t, minute t, second t)"

definition digit_char :: "nat \<Rightarrow> char" where
  "digit_char n = ''0123456789'' ! n"

fun decimal :: "nat \<Rightarrow> string" where
  "decimal n = (if n < 10 then [digit_char n] else decimal (n div 10) @ [digit_char (n mod 10)])"

declare decimal.simps [simp del]

text \<open>\<^verbatim>\<open>appendInt(b, x, width)\<close> of package time: a sign, zeros up to the width, the digits.\<close>

definition appendInt :: "int \<Rightarrow> nat \<Rightarrow> string" where
  "appendInt x width =
     (let u = nat \<bar>x\<bar>; ds = decimal u
      in (if x < 0 then ''-'' else []) @ replicate (width - length ds) (CHR ''0'') @ ds)"

text \<open>\<^verbatim>\<open>t.Format("20060102150405")\<close>: year (width 4), month, day, hour, minute, second (width 2).\<close>

definition time_Format :: "Time \<Rightarrow> string" where
  "time_Format t =
     appendInt (year t) 4 @ appendInt (int (month t)) 2 @ appendInt (int (day t)) 2
       @ appendInt (int (hour t)) 2 @ appendInt (int (minute t)) 2 @ appendInt (int (second t)) 2"

section \<open>Paths\<close>

text \<open>Package \<^verbatim>\<open>path/filepath\<close> on a system whose separator is the slash.\<close>

fun splitc :: "string \<Rightarrow> string list" where
  "splitc [] = [[]]"
| "splitc (c # cs) =
     (if c = CHR ''/'' then [] # splitc cs
      else (case splitc cs of [] \<Rightarrow> [[c]] | x # xs \<Rightarrow> (c # x) # xs))"

fun join_sep :: "string list \<Rightarrow> string" where
  "join_sep [] = []"
| "join_sep [x] = x"
| "join_sep (x # y # ys) = x @ ''/'' @ join_sep (y # ys)"

definition keepc :: "string \<Rightarrow> bool" where
  "keepc c = (c \<noteq> [] \<and> c \<noteq> ''.'')"

text \<open>One element of a path against the elements kept so far (the last one first).\<close>

definition clean_step :: "bool \<Rightarrow> string list \<Rightarrow> string \<Rightarrow> string list" where
  "clean_step rooted stk c =
     (if c = ''..'' then
        (case stk of
           [] \<Rightarrow> if rooted then [] else [c]
         | x # xs \<Rightarrow> if x = ''..'' then c # stk else xs)
      else c # stk)"

definition filepath_Clean :: "string \<Rightarrow> string" where
  "filepath_Clean p =
     (let rooted = (p \<noteq> [] \<and> hd p = CHR ''/'');
          stk = foldl (clean_step rooted) [] (filter keepc (splitc p));
          out = (if rooted then ''/'' else []) @ join_sep (rev stk)
      in if out = [] then ''.'' else out)"

text \<open>\<^verbatim>\<open>filepath.Join(a, b)\<close>: from the first non-empty element on, joined and cleaned.\<close>

definition filepath_Join :: "string \<Rightarrow> string \<Rightarrow> string" where
  "filepath_Join a b =
     (if a \<noteq> [] then filepath_Clean (a @ ''/'' @ b)
      else if b \<noteq> [] then filepath_Clean b
      else [])"

text \<open>\<^verbatim>\<open>filepath.Dir(p)\<close>: the path up to its last separator, cleaned.\<close>

definition filepath_Dir :: "string \<Rightarrow> string" where
  "filepath_Dir p = filepath_Clean (rev (dropWhile (\<lambda>c. c \<noteq> CHR ''/'') (rev p)))"

section \<open>The file system and the clock\<close>

record world =
  paths :: "string set"
  stat_fault :: "string \<Rightarrow> errno option"
  mkdir_fault :: "string \<Rightarrow> errno option"
  TMPDIR :: string
  clock :: Time

definition os_TempDir :: "world \<Rightarrow> string" where
  "os_TempDir w = (if TMPDIR w = [] then ''/tmp'' else TMPDIR w)"

definition time_Now :: "world \<Rightarrow> Time" where
  "time_Now w = clock w"

text \<open>\<^verbatim>\<open>os.Stat\<close>, the error only (both callers drop the \<^verbatim>\<open>FileInfo\<close>).\<close>

definition os_Stat :: "world \<Rightarrow> string \<Rightarrow> error option" where
  "os_Stat w p =
     (case stat_fault w p of
        Some e \<Rightarrow> Some (PathError ''stat'' p e)
      | None \<Rightarrow> if p \<in> paths w then None else Some (PathError ''stat'' p ENOENT))"

definition os_Mkdir :: "string \<Rightarrow> world \<Rightarrow> error option \<times> world" where
  "os_Mkdir p w =
     (case mkdir_fault w p of
        Some e \<Rightarrow> (Some (PathError ''mkdir'' p e), w)
      | None \<Rightarrow>
          if p \<in> paths w then (Some (PathError ''mkdir'' p EEXIST), w)
          else (None, w\<lparr>paths := insert p (paths w)\<rparr>))"

section \<open>The flag variables, the collaborators and the state\<close>

text \<open>
  The package-level flag variables that the three commands read and assign. Their
  declarations and the functions registering them are in a file of the package that is
  not at hand; the names are the ones the commands use.
\<close>

record Flags =
  flagAPIRoot :: string
  flagAPIPath :: string
  flagLanguage :: string
  flagRepoRoot :: string
  flagOutput :: string
  flagGeneratorInput :: string
  flagPush :: bool
  flagGitHubToken :: string
  flagBranch :: string

record Repo =
  Dir :: string

text \<open>
  What the commands call and do not define: the table \<^verbatim>\<open>supportedLanguages\<close> (a
  \<^verbatim>\<open>map[string]bool\<close>, false on a missing key), the two clone functions and package
  \<^verbatim>\<open>container\<close>. They are parameters; each may change the world in any way.
\<close>

record env =
  supportedLanguages :: "string \<Rightarrow> bool"
  cloneGoogleapis :: "world \<Rightarrow> (error + Repo) \<times> world"
  cloneLanguageRepo :: "string \<Rightarrow> world \<Rightarrow> (error + Repo) \<times> world"
  container_Configure :: "string \<Rightarrow> string \<Rightarrow> string \<Rightarrow> string \<Rightarrow> world \<Rightarrow> error option \<times> world"
  container_Generate ::
    "string \<Rightarrow> string \<Rightarrow> string \<Rightarrow> string \<Rightarrow> string \<Rightarrow> world \<Rightarrow> error option \<times> world"
  container_Clean :: "string \<Rightarrow> string \<Rightarrow> string \<Rightarrow> world \<Rightarrow> error option \<times> world"
  container_Build :: "string \<Rightarrow> string \<Rightarrow> string \<Rightarrow> world \<Rightarrow> error option \<times> world"

text \<open>
  Every call that a command makes is written to a log with the error it returned (None for
  nil): the log is what "this step ran" and "that step did not run" are read from.
\<close>

datatype call =
    CallCloneGoogleapis
  | CallCloneLanguageRepo string
  | CallVerifyLanguageRepoExists string string
  | CallDefaultOutput Time
  | CallConfigure string string string string
  | CallGenerate string string string string string
  | CallClean string string string
  | CallBuild string string string
  | CallCommit
  | CallPush

record State =
  flags :: Flags
  world :: world
  trace :: "(call \<times> error option) list"

definition logged :: "State \<Rightarrow> call \<Rightarrow> error option \<Rightarrow> world \<Rightarrow> State" where
  "logged st c r w = st\<lparr>world := w, trace := trace st @ [(c, r)]\<rparr>"

definition err_of :: "error + 'a \<Rightarrow> error option" where
  "err_of r = (case r of Inl e \<Rightarrow> Some e | Inr v \<Rightarrow> None)"

section \<open>The helpers of the first variant\<close>

definition defaultOutput_path :: "world \<Rightarrow> Time \<Rightarrow> string" where
  "defaultOutput_path w t = filepath_Join (os_TempDir w) (''generator-'' @ time_Format t)"

definition defaultOutput :: "Time \<Rightarrow> world \<Rightarrow> (error + string) \<times> world" where
  "defaultOutput t w =
     (let path = defaultOutput_path w t;
          err = os_Stat w path
      in if os_IsNotExist err then
           (case os_Mkdir path w of
              (Some e, w') \<Rightarrow>
                (Inl (ErrorfW ''unable to create default output path '%s': %w'' [path] e), w')
            | (None, w') \<Rightarrow> (Inr path, w'))
         else
           (case err of
              None \<Rightarrow> (Inl (Errorf ''default output path already exists: %s'' [path]), w)
            | Some e \<Rightarrow> (Inl (ErrorfW ''unable to check directory '%s': %w'' [path] e), w)))"

definition languageRepo_path :: "string \<Rightarrow> string \<Rightarrow> string" where
  "languageRepo_path repoRoot language = filepath_Join repoRoot (''google-cloud-'' @ language)"

definition verifyLanguageRepoExists :: "string \<Rightarrow> string \<Rightarrow> world \<Rightarrow> error option" where
  "verifyLanguageRepoExists repoRoot language w =
     (let path = languageRepo_path repoRoot language
      in case os_Stat w path of
           None \<Rightarrow> None
         | Some e \<Rightarrow>
             if os_IsNotExist (Some e) then Some (Errorf ''language repo not found: %s'' [path])
             else Some (ErrorfW ''unable to check language repo '%s': %w'' [path] e))"

definition commit :: "error option" where
  "commit = Some (Errorf ''commit is not implemented'' [])"

definition push :: "error option" where
  "push = Some (Errorf ''push is not implemented'' [])"

section \<open>The three commands of the first variant\<close>

text \<open>
  Each \<^verbatim>\<open>Run\<close> is a function from the state to the error it returns (None for nil) and
  the state it leaves. An early \<^verbatim>\<open>return err\<close> is the branch that stops there; the rest
  of a body after a statement is a function of its own, named after the statement it
  starts with and defined before the one that continues into it. The
  \<^verbatim>\<open>context.Context\<close> is the background context and the lines written by \<^verbatim>\<open>slog.Info\<close>
  are left out.
\<close>

subsection \<open>configure\<close>

definition CmdConfigure_Run :: "env \<Rightarrow> State \<Rightarrow> error option \<times> State" where
  "CmdConfigure_Run env st =
     (let f = flags st in
      if flagAPIRoot f = [] then (Some (Errorf ''-api-root is not provided'' []), st)
      else if flagAPIPath f = [] then (Some (Errorf ''-api-path is not provided'' []), st)
      else if \<not> supportedLanguages env (flagLanguage f) then
        (Some (Errorf ''invalid -language flag specified: %q'' [flagLanguage f]), st)
      else if flagPush f \<and> flagGitHubToken f = [] then
        (Some (Errorf ''-github-token must be provided if -push is set to true'' []), st)
      else
        (case container_Configure env (flagLanguage f) (flagAPIRoot f) (flagAPIPath f)
                (flagGeneratorInput f) (world st) of
           (r, w') \<Rightarrow>
             (r, logged st (CallConfigure (flagLanguage f) (flagAPIRoot f) (flagAPIPath f)
                              (flagGeneratorInput f)) r w')))"

subsection \<open>generate\<close>

text \<open>\<^verbatim>\<open>return container.Generate(ctx, flagLanguage, flagAPIRoot, flagAPIPath, flagOutput, flagGeneratorInput)\<close>\<close>

definition Generate_generate :: "env \<Rightarrow> State \<Rightarrow> error option \<times> State" where
  "Generate_generate env st =
     (let f = flags st in
      case container_Generate env (flagLanguage f) (flagAPIRoot f) (flagAPIPath f) (flagOutput f)
             (flagGeneratorInput f) (world st) of
        (r, w') \<Rightarrow>
          (r, logged st (CallGenerate (flagLanguage f) (flagAPIRoot f) (flagAPIPath f)
                           (flagOutput f) (flagGeneratorInput f)) r w'))"

text \<open>\<^verbatim>\<open>if flagOutput == "" { ... defaultOutput(time.Now()) ... flagOutput = defaultOutput }\<close>\<close>

definition Generate_output :: "env \<Rightarrow> State \<Rightarrow> error option \<times> State" where
  "Generate_output env st =
     (if flagOutput (flags st) = [] then
        (case defaultOutput (time_Now (world st)) (world st) of
           (Inl err, w') \<Rightarrow>
             (Some err, logged st (CallDefaultOutput (time_Now (world st))) (Some err) w')
         | (Inr out, w') \<Rightarrow>
             Generate_generate env
               ((logged st (CallDefaultOutput (time_Now (world st))) None w')
                  \<lparr>flags := (flags st)\<lparr>flagOutput := out\<rparr>\<rparr>))
      else Generate_generate env st)"

text \<open>\<^verbatim>\<open>if err := verifyLanguageRepoExists(flagRepoRoot, flagLanguage); err != nil { return err }\<close>\<close>

definition Generate_verify :: "env \<Rightarrow> State \<Rightarrow> error option \<times> State" where
  "Generate_verify env st =
     (let f = flags st in
      case verifyLanguageRepoExists (flagRepoRoot f) (flagLanguage f) (world st) of
        Some err \<Rightarrow>
          (Some err, logged st (CallVerifyLanguageRepoExists (flagRepoRoot f) (flagLanguage f))
                       (Some err) (world st))
      | None \<Rightarrow>
          Generate_output env
            (logged st (CallVerifyLanguageRepoExists (flagRepoRoot f) (flagLanguage f)) None
               (world st)))"

text \<open>\<^verbatim>\<open>if flagRepoRoot == "" { ... cloneLanguageRepo(ctx, flagLanguage) ... flagRepoRoot = filepath.Dir(repo.Dir) }\<close>\<close>

definition Generate_repoRoot :: "env \<Rightarrow> State \<Rightarrow> error option \<times> State" where
  "Generate_repoRoot env st =
     (if flagRepoRoot (flags st) = [] then
        (case cloneLanguageRepo env (flagLanguage (flags st)) (world st) of
           (Inl err, w') \<Rightarrow>
             (Some err, logged st (CallCloneLanguageRepo (flagLanguage (flags st))) (Some err) w')
         | (Inr repo, w') \<Rightarrow>
             Generate_verify env
               ((logged st (CallCloneLanguageRepo (flagLanguage (flags st))) None w')
                  \<lparr>flags := (flags st)\<lparr>flagRepoRoot := filepath_Dir (Dir repo)\<rparr>\<rparr>))
      else Generate_verify env st)"

text \<open>\<^verbatim>\<open>if flagAPIRoot == "" { ... cloneGoogleapis(ctx) ... flagAPIRoot = repo.Dir }\<close>\<close>

definition Generate_apiRoot :: "env \<Rightarrow> State \<Rightarrow> error option \<times> State" where
  "Generate_apiRoot env st =
     (if flagAPIRoot (flags st) = [] then
        (case cloneGoogleapis env (world st) of
           (Inl err, w') \<Rightarrow> (Some err, logged st CallCloneGoogleapis (Some err) w')
         | (Inr repo, w') \<Rightarrow>
             Generate_repoRoot env
               ((logged st CallCloneGoogleapis None w')
                  \<lparr>flags := (flags st)\<lparr>flagAPIRoot := Dir repo\<rparr>\<rparr>))
      else Generate_repoRoot env st)"

definition CmdGenerate_Run :: "env \<Rightarrow> State \<Rightarrow> error option \<times> State" where
  "CmdGenerate_Run env st =
     (if flagAPIPath (flags st) = [] then (Some (Errorf ''-api-path is not provided'' []), st)
      else if \<not> supportedLanguages env (flagLanguage (flags st)) then
        (Some (Errorf ''invalid -language flag specified: %q'' [flagLanguage (flags st)]), st)
      else Generate_apiRoot env st)"

subsection \<open>update-repo\<close>

text \<open>\<^verbatim>\<open>if err := commit(); err != nil { return err }; return push()\<close>\<close>

definition UpdateRepo_commit :: "State \<Rightarrow> error option \<times> State" where
  "UpdateRepo_commit st =
     (case commit of
        Some err \<Rightarrow> (Some err, logged st CallCommit (Some err) (world st))
      | None \<Rightarrow> (push, logged (logged st CallCommit None (world st)) CallPush push (world st)))"

text \<open>\<^verbatim>\<open>if err := container.Build(ctx, flagLanguage, flagOutput, flagAPIPath); err != nil { return err }\<close>\<close>

definition UpdateRepo_build :: "env \<Rightarrow> State \<Rightarrow> error option \<times> State" where
  "UpdateRepo_build env st =
     (let f = flags st in
      case container_Build env (flagLanguage f) (flagOutput f) (flagAPIPath f) (world st) of
        (Some err, w') \<Rightarrow>
          (Some err, logged st (CallBuild (flagLanguage f) (flagOutput f) (flagAPIPath f))
                       (Some err) w')
      | (None, w') \<Rightarrow>
          UpdateRepo_commit
            (logged st (CallBuild (flagLanguage f) (flagOutput f) (flagAPIPath f)) None w'))"

text \<open>\<^verbatim>\<open>if err := container.Clean(ctx, flagLanguage, flagOutput, flagAPIPath); err != nil { return err }\<close>\<close>

definition UpdateRepo_clean :: "env \<Rightarrow> State \<Rightarrow> error option \<times> State" where
  "UpdateRepo_clean env st =
     (let f = flags st in
      case container_Clean env (flagLanguage f) (flagOutput f) (flagAPIPath f) (world st) of
        (Some err, w') \<Rightarrow>
          (Some err, logged st (CallClean (flagLanguage f) (flagOutput f) (flagAPIPath f))
                       (Some err) w')
      | (None, w') \<Rightarrow>
          UpdateRepo_build env
            (logged st (CallClean (flagLanguage f) (flagOutput f) (flagAPIPath f)) None w'))"

text \<open>\<^verbatim>\<open>if err := container.Generate(ctx, flagLanguage, flagAPIRoot, flagAPIPath, flagOutput, flagGeneratorInput); err != nil { return err }\<close>\<close>

definition UpdateRepo_generate :: "env \<Rightarrow> State \<Rightarrow> error option \<times> State" where
  "UpdateRepo_generate env st =
     (let f = flags st in
      case container_Generate env (flagLanguage f) (flagAPIRoot f) (flagAPIPath f) (flagOutput f)
             (flagGeneratorInput f) (world st) of
        (Some err, w') \<Rightarrow>
          (Some err, logged st (CallGenerate (flagLanguage f) (flagAPIRoot f) (flagAPIPath f)
                                  (flagOutput f) (flagGeneratorInput f)) (Some err) w')
      | (None, w') \<Rightarrow>
          UpdateRepo_clean env
            (logged st (CallGenerate (flagLanguage f) (flagAPIRoot f) (flagAPIPath f)
                          (flagOutput f) (flagGeneratorInput f)) None w'))"

text \<open>\<^verbatim>\<open>if _, err := cloneLanguageRepo(ctx, flagLanguage); err != nil { return err }\<close>\<close>

definition UpdateRepo_cloneLanguageRepo :: "env \<Rightarrow> State \<Rightarrow> error option \<times> State" where
  "UpdateRepo_cloneLanguageRepo env st =
     (case cloneLanguageRepo env (flagLanguage (flags st)) (world st) of
        (Inl err, w') \<Rightarrow>
          (Some err, logged st (CallCloneLanguageRepo (flagLanguage (flags st))) (Some err) w')
      | (Inr repo, w') \<Rightarrow>
          UpdateRepo_generate env
            (logged st (CallCloneLanguageRepo (flagLanguage (flags st))) None w'))"

text \<open>\<^verbatim>\<open>if flagOutput == "" { ... defaultOutput(time.Now()) ... flagOutput = defaultOutput }\<close>\<close>

definition UpdateRepo_output :: "env \<Rightarrow> State \<Rightarrow> error option \<times> State" where
  "UpdateRepo_output env st =
     (if flagOutput (flags st) = [] then
        (case defaultOutput (time_Now (world st)) (world st) of
           (Inl err, w') \<Rightarrow>
             (Some err, logged st (CallDefaultOutput (time_Now (world st))) (Some err) w')
         | (Inr out, w') \<Rightarrow>
             UpdateRepo_cloneLanguageRepo env
               ((logged st (CallDefaultOutput (time_Now (world st))) None w')
                  \<lparr>flags := (flags st)\<lparr>flagOutput := out\<rparr>\<rparr>))
      else UpdateRepo_cloneLanguageRepo env st)"

text \<open>\<^verbatim>\<open>if flagAPIRoot == "" { ... cloneGoogleapis(ctx) ... flagAPIRoot = repo.Dir }\<close>\<close>

definition UpdateRepo_apiRoot :: "env \<Rightarrow> State \<Rightarrow> error option \<times> State" where
  "UpdateRepo_apiRoot env st =
     (if flagAPIRoot (flags st) = [] then
        (case cloneGoogleapis env (world st) of
           (Inl err, w') \<Rightarrow> (Some err, logged st CallCloneGoogleapis (Some err) w')
         | (Inr repo, w') \<Rightarrow>
             UpdateRepo_output env
               ((logged st CallCloneGoogleapis None w')
                  \<lparr>flags := (flags st)\<lparr>flagAPIRoot := Dir repo\<rparr>\<rparr>))
      else UpdateRepo_output env st)"

definition CmdUpdateRepo_Run :: "env \<Rightarrow> State \<Rightarrow> error option \<times> State" where
  "CmdUpdateRepo_Run env st =
     (if flagAPIPath (flags st) = [] then (Some (Errorf ''-api-path is not provided'' []), st)
      else if \<not> supportedLanguages env (flagLanguage (flags st)) then
        (Some (Errorf ''invalid -language flag specified: %q'' [flagLanguage (flags st)]), st)
      else UpdateRepo_apiRoot env st)"

section \<open>The second variant\<close>

text \<open>
  The second file of the package has \<^verbatim>\<open>update-repo\<close> without a language and without
  validation, on a package \<^verbatim>\<open>container\<close> whose functions take fewer arguments, and its own
  \<^verbatim>\<open>commit\<close> and \<^verbatim>\<open>push\<close>.
\<close>

record env_v2 =
  container_Generate_v2 ::
    "string \<Rightarrow> string \<Rightarrow> string \<Rightarrow> string \<Rightarrow> world \<Rightarrow> error option \<times> world"
  container_Clean_v2 :: "string \<Rightarrow> string \<Rightarrow> world \<Rightarrow> error option \<times> world"
  container_Build_v2 :: "string \<Rightarrow> string \<Rightarrow> world \<Rightarrow> error option \<times> world"

definition commit_v2 :: "error option" where
  "commit_v2 = None"

definition push_v2 :: "error option" where
  "push_v2 = None"

definition UpdateRepo_v2_commit :: "State \<Rightarrow> error option \<times> State" where
  "UpdateRepo_v2_commit st =
     (case commit_v2 of
        Some err \<Rightarrow> (Some err, logged st CallCommit (Some err) (world st))
      | None \<Rightarrow>
          (push_v2, logged (logged st CallCommit None (world st)) CallPush push_v2 (world st)))"

definition UpdateRepo_v2_build :: "env_v2 \<Rightarrow> State \<Rightarrow> error option \<times> State" where
  "UpdateRepo_v2_build env st =
     (let f = flags st in
      case container_Build_v2 env (flagOutput f) (flagAPIPath f) (world st) of
        (Some err, w') \<Rightarrow>
          (Some err, logged st (CallBuild [] (flagOutput f) (flagAPIPath f)) (Some err) w')
      | (None, w') \<Rightarrow>
          UpdateRepo_v2_commit (logged st (CallBuild [] (flagOutput f) (flagAPIPath f)) None w'))"

definition UpdateRepo_v2_clean :: "env_v2 \<Rightarrow> State \<Rightarrow> error option \<times> State" where
  "UpdateRepo_v2_clean env st =
     (let f = flags st in
      case container_Clean_v2 env (flagOutput f) (flagAPIPath f) (world st) of
        (Some err, w') \<Rightarrow>
          (Some err, logged st (CallClean [] (flagOutput f) (flagAPIPath f)) (Some err) w')
      | (None, w') \<Rightarrow>
          UpdateRepo_v2_build env (logged st (CallClean [] (flagOutput f) (flagAPIPath f)) None w'))"

text \<open>
  The calls of this variant carry no language: they are logged with an empty one, and
  \<^verbatim>\<open>container.Generate\<close> is given the empty generator input that the source passes.
\<close>

definition CmdUpdateRepo_v2_Run :: "env_v2 \<Rightarrow> State \<Rightarrow> error option \<times> State" where
  "CmdUpdateRepo_v2_Run env st =
     (let f = flags st in
      case container_Generate_v2 env (flagAPIRoot f) (flagAPIPath f) (flagOutput f) [] (world st) of
        (Some err, w') \<Rightarrow>
          (Some err, logged st (CallGenerate [] (flagAPIRoot f) (flagAPIPath f) (flagOutput f) [])
                       (Some err) w')
      | (None, w') \<Rightarrow>
          UpdateRepo_v2_clean env
            (logged st (CallGenerate [] (flagAPIRoot f) (flagAPIPath f) (flagOutput f) []) None w'))"

section \<open>A run to evaluate\<close>

text \<open>
  A clock, a file system without faults, collaborators that all succeed, and a set of
  flags. The table of supported languages is not at hand: here it holds one language.
\<close>

definition example_time :: Time where
  "example_time = \<lparr>year = 2024, month = 3, day = 9, hour = 14, minute = 5, second = 7,
     nanosecond = 0, utc_offset = 0\<rparr>"

definition example_world :: world where
  "example_world = \<lparr>paths = {''/tmp''}, stat_fault = (\<lambda>p. None), mkdir_fault = (\<lambda>p. None),
     TMPDIR = [], clock = example_time\<rparr>"

definition example_env :: env where
  "example_env = \<lparr>
     supportedLanguages = (\<lambda>l. l = ''dotnet''),
     cloneGoogleapis = (\<lambda>w. (Inr \<lparr>Dir = ''/work/googleapis''\<rparr>,
                              w\<lparr>paths := insert ''/work/googleapis'' (paths w)\<rparr>)),
     cloneLanguageRepo = (\<lambda>l w. (Inr \<lparr>Dir = ''/work/google-cloud-'' @ l\<rparr>,
                              w\<lparr>paths := insert (''/work/google-cloud-'' @ l) (paths w)\<rparr>)),
     container_Configure = (\<lambda>l r p g w. (None, w)),
     container_Generate = (\<lambda>l r p out g w. (None, w)),
     container_Clean = (\<lambda>l out p w. (None, w)),
     container_Build = (\<lambda>l out p w. (None, w))\<rparr>"

definition example_env_v2 :: env_v2 where
  "example_env_v2 = \<lparr>
     container_Generate_v2 = (\<lambda>r p out g w. (None, w)),
     container_Clean_v2 = (\<lambda>out p w. (None, w)),
     container_Build_v2 = (\<lambda>out p w. (None, w))\<rparr>"

definition example_flags :: Flags where
  "example_flags = \<lparr>flagAPIRoot = ''/src/googleapis'', flagAPIPath = ''google/spanner/v1'',
     flagLanguage = ''dotnet'', flagRepoRoot = [], flagOutput = ''/out'',
     flagGeneratorInput = [], flagPush = False, flagGitHubToken = [], flagBranch = []\<rparr>"

definition example_state :: State where
  "example_state = \<lparr>flags = example_flags, world = example_world, trace = []\<rparr>"

section \<open>What the log of a run says\<close>

text \<open>The calls that a run added to the log.\<close>

definition new_events :: "State \<Rightarrow> State \<Rightarrow> (call \<times> error option) list" where
  "new_events st st' = drop (length (trace st)) (trace st')"

text \<open>The error of the first call in a log that failed.\<close>

fun first_failure :: "(call \<times> error option) list \<Rightarrow> error option" where
  "first_failure [] = None"
| "first_failure ((c, Some e) # evs) = Some e"
| "first_failure ((c, None) # evs) = first_failure evs"

text \<open>No call in the log comes after one that failed.\<close>

fun stops_at_failure :: "(call \<times> error option) list \<Rightarrow> bool" where
  "stops_at_failure [] = True"
| "stops_at_failure ((c, Some e) # evs) = (evs = [])"
| "stops_at_failure ((c, None) # evs) = stops_at_failure evs"

text \<open>The place of a call in update-repo, and in generate.\<close>

fun rank_update_repo :: "call \<Rightarrow> nat" where
  "rank_update_repo CallCloneGoogleapis = 0"
| "rank_update_repo (CallDefaultOutput t) = 1"
| "rank_update_repo (CallCloneLanguageRepo l) = 2"
| "rank_update_repo (CallGenerate l r p out g) = 3"
| "rank_update_repo (CallClean l out p) = 4"
| "rank_update_repo (CallBuild l out p) = 5"
| "rank_update_repo CallCommit = 6"
| "rank_update_repo CallPush = 7"
| "rank_update_repo (CallVerifyLanguageRepoExists r l) = 8"
| "rank_update_repo (CallConfigure l r p g) = 9"

fun rank_generate :: "call \<Rightarrow> nat" where
  "rank_generate CallCloneGoogleapis = 0"
| "rank_generate (CallCloneLanguageRepo l) = 1"
| "rank_generate (CallVerifyLanguageRepoExists r l) = 2"
| "rank_generate (CallDefaultOutput t) = 3"
| "rank_generate (CallGenerate l r p out g) = 4"
| "rank_generate (CallClean l out p) = 5"
| "rank_generate (CallBuild l out p) = 6"
| "rank_generate CallCommit = 7"
| "rank_generate CallPush = 8"
| "rank_generate (CallConfigure l r p g) = 9"

fun after_clean :: "call \<Rightarrow> bool" where
  "after_clean (CallBuild l out p) = True"
| "after_clean CallCommit = True"
| "after_clean CallPush = True"
| "after_clean CallCloneGoogleapis = False"
| "after_clean (CallDefaultOutput t) = False"
| "after_clean (CallCloneLanguageRepo l) = False"
| "after_clean (CallGenerate l r p out g) = False"
| "after_clean (CallClean l out p) = False"
| "after_clean (CallVerifyLanguageRepoExists r l) = False"
| "after_clean (CallConfigure l r p g) = False"

text \<open>
  A log of steps in their order from place \<open>k\<close> on, which stops at the first failure, with
  \<open>r\<close> the error of that failure.
\<close>

definition chain_ok ::
  "(call \<Rightarrow> nat) \<Rightarrow> nat \<Rightarrow> error option \<Rightarrow> (call \<times> error option) list \<Rightarrow> bool" where
  "chain_ok rk k r evs =
     (stops_at_failure evs \<and> r = first_failure evs \<and> sorted_wrt (<) (map (rk \<circ> fst) evs)
      \<and> list_all (\<lambda>ev. k \<le> rk (fst ev)) evs)"

text \<open>A run from state \<open>st\<close> with result \<open>R\<close> added such a log to the one of \<open>st\<close>.\<close>

definition extends_log ::
  "(call \<Rightarrow> nat) \<Rightarrow> nat \<Rightarrow> State \<Rightarrow> error option \<times> State \<Rightarrow> bool" where
  "extends_log rk k st R = (\<exists>evs. trace (snd R) = trace st @ evs \<and> chain_ok rk k (fst R) evs)"

text \<open>The example environment with a \<^verbatim>\<open>container.Clean\<close> that fails.\<close>

definition example_env_clean_fails :: env where
  "example_env_clean_fails =
     example_env\<lparr>container_Clean := (\<lambda>l out p w. (Some (External ''clean failed''), w))\<rparr>"

section \<open>The workflows as chains of steps\<close>

text \<open>
  The specification words update-repo and generate as chains of steps, each run only
  after every earlier one has succeeded. The definitions of this section follow that
  wording, step by step, to be compared with the commands above.
\<close>

type_synonym step = "State \<Rightarrow> error option \<times> State"

fun run_steps :: "step list \<Rightarrow> State \<Rightarrow> error option \<times> State" where
  "run_steps [] st = (None, st)"
| "run_steps (s # ss) st =
     (case s st of
        (Some e, st') \<Rightarrow> (Some e, st')
      | (None, st') \<Rightarrow> run_steps ss st')"

text \<open>Validate: the API path is required and the language is a supported one.\<close>

definition step_validate :: "env \<Rightarrow> step" where
  "step_validate env st =
     (if flagAPIPath (flags st) = [] then (Some (Errorf ''-api-path is not provided'' []), st)
      else if supportedLanguages env (flagLanguage (flags st)) then (None, st)
      else (Some (Errorf ''invalid -language flag specified: %q'' [flagLanguage (flags st)]), st))"

text \<open>If the API root is empty, clone the repository of API definitions and set it.\<close>

definition step_resolveAPIDefinitions :: "env \<Rightarrow> step" where
  "step_resolveAPIDefinitions env st =
     (if flagAPIRoot (flags st) = [] then
        (case cloneGoogleapis env (world st) of
           (Inl err, w') \<Rightarrow> (Some err, logged st CallCloneGoogleapis (Some err) w')
         | (Inr repo, w') \<Rightarrow>
             (None, (logged st CallCloneGoogleapis None w')
                      \<lparr>flags := (flags st)\<lparr>flagAPIRoot := Dir repo\<rparr>\<rparr>))
      else (None, st))"

text \<open>If the output is empty, allocate a working directory and set it.\<close>

definition step_allocate :: step where
  "step_allocate st =
     (if flagOutput (flags st) = [] then
        (case defaultOutput (time_Now (world st)) (world st) of
           (Inl err, w') \<Rightarrow>
             (Some err, logged st (CallDefaultOutput (time_Now (world st))) (Some err) w')
         | (Inr out, w') \<Rightarrow>
             (None, (logged st (CallDefaultOutput (time_Now (world st))) None w')
                      \<lparr>flags := (flags st)\<lparr>flagOutput := out\<rparr>\<rparr>))
      else (None, st))"

text \<open>Clone the repository of the language, whatever the repository root is.\<close>

definition step_cloneLanguageRepo :: "env \<Rightarrow> step" where
  "step_cloneLanguageRepo env st =
     (case cloneLanguageRepo env (flagLanguage (flags st)) (world st) of
        (r, w') \<Rightarrow>
          (err_of r, logged st (CallCloneLanguageRepo (flagLanguage (flags st))) (err_of r) w'))"

text \<open>
  If the repository root is empty, clone the repository of the language and set the root
  to the parent directory of the clone.
\<close>

definition step_resolveLanguageRepo :: "env \<Rightarrow> step" where
  "step_resolveLanguageRepo env st =
     (if flagRepoRoot (flags st) = [] then
        (case cloneLanguageRepo env (flagLanguage (flags st)) (world st) of
           (Inl err, w') \<Rightarrow>
             (Some err, logged st (CallCloneLanguageRepo (flagLanguage (flags st))) (Some err) w')
         | (Inr repo, w') \<Rightarrow>
             (None, (logged st (CallCloneLanguageRepo (flagLanguage (flags st))) None w')
                      \<lparr>flags := (flags st)\<lparr>flagRepoRoot := filepath_Dir (Dir repo)\<rparr>\<rparr>))
      else (None, st))"

text \<open>Verify that the repository of the language exists under the repository root.\<close>

definition step_verifyLanguageRepoExists :: step where
  "step_verifyLanguageRepoExists st =
     (let r = verifyLanguageRepoExists (flagRepoRoot (flags st)) (flagLanguage (flags st))
                (world st)
      in (r, logged st (CallVerifyLanguageRepoExists (flagRepoRoot (flags st))
                          (flagLanguage (flags st))) r (world st)))"

text \<open>The driver: generate(language, apiRoot, apiPath, output, generatorInput).\<close>

definition step_generate :: "env \<Rightarrow> step" where
  "step_generate env st =
     (let f = flags st;
          R = container_Generate env (flagLanguage f) (flagAPIRoot f) (flagAPIPath f)
                (flagOutput f) (flagGeneratorInput f) (world st)
      in (fst R, logged st (CallGenerate (flagLanguage f) (flagAPIRoot f) (flagAPIPath f)
                              (flagOutput f) (flagGeneratorInput f)) (fst R) (snd R)))"

text \<open>The driver: clean(language, output, apiPath).\<close>

definition step_clean :: "env \<Rightarrow> step" where
  "step_clean env st =
     (let f = flags st;
          R = container_Clean env (flagLanguage f) (flagOutput f) (flagAPIPath f) (world st)
      in (fst R, logged st (CallClean (flagLanguage f) (flagOutput f) (flagAPIPath f))
                   (fst R) (snd R)))"

text \<open>The driver: build(language, output, apiPath).\<close>

definition step_build :: "env \<Rightarrow> step" where
  "step_build env st =
     (let f = flags st;
          R = container_Build env (flagLanguage f) (flagOutput f) (flagAPIPath f) (world st)
      in (fst R, logged st (CallBuild (flagLanguage f) (flagOutput f) (flagAPIPath f))
                   (fst R) (snd R)))"

text \<open>The publisher: commit, then push.\<close>

definition step_commit :: step where
  "step_commit st = (commit, logged st CallCommit commit (world st))"

definition step_push :: step where
  "step_push st = (push, logged st CallPush push (world st))"

text \<open>A state of the example with nothing resolved yet: no API root, no output.\<close>

definition example_state_unresolved :: State where
  "example_state_unresolved =
     example_state\<lparr>flags := example_flags\<lparr>flagAPIRoot := [], flagOutput := []\<rparr>\<rparr>"

section \<open>What a command may write to the flag variables\<close>


section \<open>Reading a timestamp back\<close>

text \<open>The value of a digit and of a string of digits, to read the layout back.\<close>

definition digit_val :: "char \<Rightarrow> nat" where
  "digit_val c = length (takeWhile (\<lambda>d. d \<noteq> c) ''0123456789'')"

definition decimal_val :: "string \<Rightarrow> nat" where
  "decimal_val s = foldl (\<lambda>a c. 10 * a + digit_val c) 0 s"

text \<open>A name of one element: not empty, without a separator, neither dot nor dot-dot.\<close>

definition plain_name :: "string \<Rightarrow> bool" where
  "plain_name n = (n \<noteq> [] \<and> CHR ''/'' \<notin> set n \<and> n \<noteq> ''.'' \<and> n \<noteq> ''..'')"

text \<open>
  The hour that a clock set back repeats: half past one on 3 November 2024, four hours
  behind UTC and, an hour later, five hours behind.
\<close>

definition example_time_before_shift :: Time where
  "example_time_before_shift = \<lparr>year = 2024, month = 11, day = 3, hour = 1, minute = 30,
     second = 0, nanosecond = 0, utc_offset = - 14400\<rparr>"

definition example_time_after_shift :: Time where
  "example_time_after_shift = \<lparr>year = 2024, month = 11, day = 3, hour = 1, minute = 30,
     second = 0, nanosecond = 0, utc_offset = - 18000\<rparr>"

text \<open>The state with another push flag and another token.\<close>

definition with_push :: "bool \<Rightarrow> string \<Rightarrow> State \<Rightarrow> State" where
  "with_push b tok st = st\<lparr>flags := (flags st)\<lparr>flagPush := b, flagGitHubToken := tok\<rparr>\<rparr>"

section \<open>update-repo of the first variant never returns nil\<close>

lemma UpdateRepo_commit_fails: "\<exists>e. fst (UpdateRepo_commit st) = Some e"
  by (simp add: UpdateRepo_commit_def commit_def)

lemma UpdateRepo_build_fails: "\<exists>e. fst (UpdateRepo_build env st) = Some e"
  by (simp add: UpdateRepo_build_def UpdateRepo_commit_fails Let_def
      split: prod.split option.split)

lemma UpdateRepo_clean_fails: "\<exists>e. fst (UpdateRepo_clean env st) = Some e"
  by (simp add: UpdateRepo_clean_def UpdateRepo_build_fails Let_def
      split: prod.split option.split)

lemma UpdateRepo_generate_fails: "\<exists>e. fst (UpdateRepo_generate env st) = Some e"
  by (simp add: UpdateRepo_generate_def UpdateRepo_clean_fails Let_def
      split: prod.split option.split)

lemma UpdateRepo_cloneLanguageRepo_fails:
  "\<exists>e. fst (UpdateRepo_cloneLanguageRepo env st) = Some e"
  by (simp add: UpdateRepo_cloneLanguageRepo_def UpdateRepo_generate_fails
      split: prod.split sum.split)

lemma UpdateRepo_output_fails: "\<exists>e. fst (UpdateRepo_output env st) = Some e"
  by (simp add: UpdateRepo_output_def UpdateRepo_cloneLanguageRepo_fails
      split: prod.split sum.split)

lemma UpdateRepo_apiRoot_fails: "\<exists>e. fst (UpdateRepo_apiRoot env st) = Some e"
  by (simp add: UpdateRepo_apiRoot_def UpdateRepo_output_fails split: prod.split sum.split)

lemma CmdUpdateRepo_Run_fails: "\<exists>e. fst (CmdUpdateRepo_Run env st) = Some e"
  by (simp add: CmdUpdateRepo_Run_def UpdateRepo_apiRoot_fails)

lemma example_update_repo_v1:
  "fst (CmdUpdateRepo_Run example_env example_state) = Some (Errorf ''commit is not implemented'' [])"
  by (simp add: CmdUpdateRepo_Run_def UpdateRepo_apiRoot_def UpdateRepo_output_def
      UpdateRepo_cloneLanguageRepo_def UpdateRepo_generate_def UpdateRepo_clean_def
      UpdateRepo_build_def UpdateRepo_commit_def commit_def logged_def
      example_env_def example_state_def example_flags_def)

lemma example_update_repo_v2:
  "fst (CmdUpdateRepo_v2_Run example_env_v2 example_state) = None"
  by (simp add: CmdUpdateRepo_v2_Run_def UpdateRepo_v2_clean_def UpdateRepo_v2_build_def
      UpdateRepo_v2_commit_def commit_v2_def push_v2_def logged_def
      example_env_v2_def example_state_def example_flags_def)

text \<open>
  C10. The publish steps of the two variants differ. In the first variant \<open>commit\<close> and
  \<open>push\<close> are the errors "commit is not implemented" and "push is not implemented", and
  update-repo returns an error from every environment and every state. In the second
  variant \<open>commit\<close> and \<open>push\<close> are nil. On the example run, where every collaborator
  succeeds, the first variant returns the error of \<open>commit\<close> and the second returns nil.
\<close>

theorem publish_variants_differ:
  "commit = Some (Errorf ''commit is not implemented'' [])
   \<and> push = Some (Errorf ''push is not implemented'' [])
   \<and> (\<exists>e. fst (CmdUpdateRepo_Run env st) = Some e)
   \<and> commit_v2 = None \<and> push_v2 = None
   \<and> fst (CmdUpdateRepo_Run example_env example_state) = Some (Errorf ''commit is not implemented'' [])
   \<and> fst (CmdUpdateRepo_v2_Run example_env_v2 example_state) = None
   \<and> fst (CmdUpdateRepo_Run example_env example_state)
       \<noteq> fst (CmdUpdateRepo_v2_Run example_env_v2 example_state)"
  by (simp add: commit_def push_def commit_v2_def push_v2_def CmdUpdateRepo_Run_fails
      example_update_repo_v1 example_update_repo_v2)

section \<open>The check of the language repository\<close>

lemma languageRepo_path_example:
  "languageRepo_path ''/work'' ''dotnet'' = ''/work/google-cloud-dotnet''"
  by (simp add: languageRepo_path_def filepath_Join_def filepath_Clean_def keepc_def
      clean_step_def)



section \<open>The default output directory\<close>

subsection \<open>The width of the timestamp\<close>

lemma length_decimal_le: "0 < k \<Longrightarrow> n < 10 ^ k \<Longrightarrow> length (decimal n) \<le> k"
proof (induction k arbitrary: n)
  case 0
  then show ?case by simp
next
  case (Suc k)
  show ?case
  proof (cases "n < 10")
    case True
    then show ?thesis by (simp add: decimal.simps [of n])
  next
    case False
    with Suc.prems have k: "0 < k" by (cases k) auto
    from Suc.prems have "n div 10 < 10 ^ k" by (simp add: less_mult_imp_div_less mult.commute)
    with Suc.IH k have "length (decimal (n div 10)) \<le> k" by blast
    with False show ?thesis by (simp add: decimal.simps [of n])
  qed
qed

lemma length_appendInt:
  "0 \<le> x \<Longrightarrow> nat x < 10 ^ w \<Longrightarrow> 0 < w \<Longrightarrow> length (appendInt x w) = w"
  using length_decimal_le [of w "nat x"] by (simp add: appendInt_def Let_def)


lemma time_Format_example: "time_Format example_time = ''20240309140507''"
  by (simp add: time_Format_def example_time_def appendInt_def Let_def decimal.simps digit_char_def)

lemma defaultOutput_path_example:
  "TMPDIR w = [] \<Longrightarrow> defaultOutput_path w example_time = ''/tmp/generator-20240309140507''"
  by (simp add: defaultOutput_path_def time_Format_example os_TempDir_def
      filepath_Join_def filepath_Clean_def keepc_def clean_step_def)




section \<open>The validation of configure\<close>

lemma flag_names_in_errors:
  "sublist ''-api-root'' ''-api-root is not provided''"
  "sublist ''-api-path'' ''-api-path is not provided''"
  "sublist ''-language'' ''invalid -language flag specified: %q''"
  "sublist ''-github-token'' ''-github-token must be provided if -push is set to true''"
proof -
  show "sublist ''-api-root'' ''-api-root is not provided''"
    by (rule prefix_imp_sublist) simp
  show "sublist ''-api-path'' ''-api-path is not provided''"
    by (rule prefix_imp_sublist) simp
  have "''invalid -language flag specified: %q''
          = ''invalid '' @ ''-language'' @ '' flag specified: %q''" by simp
  then show "sublist ''-language'' ''invalid -language flag specified: %q''"
    by (simp only: sublist_appendI)
  show "sublist ''-github-token'' ''-github-token must be provided if -push is set to true''"
    by (rule prefix_imp_sublist) simp
qed

text \<open>
  C3. configure checks, in this order, that \<open>flagAPIRoot\<close> is not empty, that
  \<open>flagAPIPath\<close> is not empty, that the language is supported, and that a push comes
  with a token. The first check that fails decides the error (with both roots missing it
  is the one about \<open>-api-root\<close>), the error names the flag, and the state is returned as
  it was: nothing was called. When all four pass, \<open>container.Configure\<close> is called once,
  with the language, the API root, the API path and the generator input, and its result
  is the result of the command.
\<close>

theorem configure_validation_order:
  "(flagAPIRoot (flags st) = []
      \<longrightarrow> CmdConfigure_Run env st = (Some (Errorf ''-api-root is not provided'' []), st))
   \<and> (flagAPIRoot (flags st) \<noteq> [] \<and> flagAPIPath (flags st) = []
      \<longrightarrow> CmdConfigure_Run env st = (Some (Errorf ''-api-path is not provided'' []), st))
   \<and> (flagAPIRoot (flags st) \<noteq> [] \<and> flagAPIPath (flags st) \<noteq> []
        \<and> \<not> supportedLanguages env (flagLanguage (flags st))
      \<longrightarrow> CmdConfigure_Run env st
            = (Some (Errorf ''invalid -language flag specified: %q'' [flagLanguage (flags st)]), st))
   \<and> (flagAPIRoot (flags st) \<noteq> [] \<and> flagAPIPath (flags st) \<noteq> []
        \<and> supportedLanguages env (flagLanguage (flags st))
        \<and> flagPush (flags st) \<and> flagGitHubToken (flags st) = []
      \<longrightarrow> CmdConfigure_Run env st
            = (Some (Errorf ''-github-token must be provided if -push is set to true'' []), st))
   \<and> (flagAPIRoot (flags st) \<noteq> [] \<and> flagAPIPath (flags st) \<noteq> []
        \<and> supportedLanguages env (flagLanguage (flags st))
        \<and> (flagPush (flags st) \<longrightarrow> flagGitHubToken (flags st) \<noteq> [])
        \<and> container_Configure env (flagLanguage (flags st)) (flagAPIRoot (flags st))
             (flagAPIPath (flags st)) (flagGeneratorInput (flags st)) (world st) = (r, w')
      \<longrightarrow> CmdConfigure_Run env st
            = (r, st\<lparr>world := w',
                      trace := trace st @ [(CallConfigure (flagLanguage (flags st))
                                 (flagAPIRoot (flags st)) (flagAPIPath (flags st))
                                 (flagGeneratorInput (flags st)), r)]\<rparr>))
   \<and> sublist ''-api-root'' (format_of (Errorf ''-api-root is not provided'' []))
   \<and> sublist ''-api-path'' (format_of (Errorf ''-api-path is not provided'' []))
   \<and> sublist ''-language'' (format_of (Errorf ''invalid -language flag specified: %q'' [l]))
   \<and> sublist ''-github-token''
        (format_of (Errorf ''-github-token must be provided if -push is set to true'' []))"
  using flag_names_in_errors
  by (simp add: CmdConfigure_Run_def Let_def logged_def)

theorem configure_validation_order_witness:
  "CmdConfigure_Run example_env
      (example_state\<lparr>flags := example_flags\<lparr>flagAPIRoot := [], flagAPIPath := []\<rparr>\<rparr>)
     = (Some (Errorf ''-api-root is not provided'' []),
        example_state\<lparr>flags := example_flags\<lparr>flagAPIRoot := [], flagAPIPath := []\<rparr>\<rparr>)
   \<and> CmdConfigure_Run example_env (example_state\<lparr>flags := example_flags\<lparr>flagAPIPath := []\<rparr>\<rparr>)
     = (Some (Errorf ''-api-path is not provided'' []),
        example_state\<lparr>flags := example_flags\<lparr>flagAPIPath := []\<rparr>\<rparr>)
   \<and> CmdConfigure_Run example_env
        (example_state\<lparr>flags := example_flags\<lparr>flagLanguage := ''python''\<rparr>\<rparr>)
     = (Some (Errorf ''invalid -language flag specified: %q'' [''python'']),
        example_state\<lparr>flags := example_flags\<lparr>flagLanguage := ''python''\<rparr>\<rparr>)
   \<and> CmdConfigure_Run example_env (example_state\<lparr>flags := example_flags\<lparr>flagPush := True\<rparr>\<rparr>)
     = (Some (Errorf ''-github-token must be provided if -push is set to true'' []),
        example_state\<lparr>flags := example_flags\<lparr>flagPush := True\<rparr>\<rparr>)
   \<and> CmdConfigure_Run example_env example_state
     = (None, example_state\<lparr>trace :=
          [(CallConfigure ''dotnet'' ''/src/googleapis'' ''google/spanner/v1'' [], None)]\<rparr>)"
proof -
  let ?s1 = "example_state\<lparr>flags := example_flags\<lparr>flagAPIRoot := [], flagAPIPath := []\<rparr>\<rparr>"
  let ?s2 = "example_state\<lparr>flags := example_flags\<lparr>flagAPIPath := []\<rparr>\<rparr>"
  let ?s3 = "example_state\<lparr>flags := example_flags\<lparr>flagLanguage := ''python''\<rparr>\<rparr>"
  let ?s4 = "example_state\<lparr>flags := example_flags\<lparr>flagPush := True\<rparr>\<rparr>"
  have a: "CmdConfigure_Run example_env ?s1 = (Some (Errorf ''-api-root is not provided'' []), ?s1)"
    using configure_validation_order [THEN conjunct1, of ?s1 example_env]
    by (simp add: example_flags_def)
  have b: "CmdConfigure_Run example_env ?s2 = (Some (Errorf ''-api-path is not provided'' []), ?s2)"
    using configure_validation_order [THEN conjunct2, THEN conjunct1, of ?s2 example_env]
    by (simp add: example_flags_def)
  have c: "CmdConfigure_Run example_env ?s3
             = (Some (Errorf ''invalid -language flag specified: %q'' [''python'']), ?s3)"
    using configure_validation_order [THEN conjunct2, THEN conjunct2, THEN conjunct1,
        of ?s3 example_env]
    by (simp add: example_flags_def example_env_def)
  have d: "CmdConfigure_Run example_env ?s4
             = (Some (Errorf ''-github-token must be provided if -push is set to true'' []), ?s4)"
    using configure_validation_order [THEN conjunct2, THEN conjunct2, THEN conjunct2,
        THEN conjunct1, of ?s4 example_env]
    by (simp add: example_flags_def example_env_def)
  have e: "CmdConfigure_Run example_env example_state
     = (None, example_state\<lparr>trace :=
          [(CallConfigure ''dotnet'' ''/src/googleapis'' ''google/spanner/v1'' [], None)]\<rparr>)"
    using configure_validation_order [THEN conjunct2, THEN conjunct2, THEN conjunct2,
        THEN conjunct2, THEN conjunct1, of example_state example_env None example_world]
    by (simp add: example_flags_def example_env_def example_state_def)
  from a b c d e show ?thesis by blast
qed

section \<open>The log of a run\<close>

lemma chain_ok_Nil: "chain_ok rk k None []"
  by (simp add: chain_ok_def)

lemma chain_ok_fail: "k \<le> rk c \<Longrightarrow> chain_ok rk k (Some e) [(c, Some e)]"
  by (simp add: chain_ok_def)

lemma chain_ok_step:
  assumes "chain_ok rk (Suc (rk c)) r evs" and "k \<le> rk c"
  shows "chain_ok rk k r ((c, None) # evs)"
  using assms by (auto simp: chain_ok_def list_all_iff)

lemma chain_ok_mono: "chain_ok rk k r evs \<Longrightarrow> j \<le> k \<Longrightarrow> chain_ok rk j r evs"
  by (auto simp: chain_ok_def list_all_iff)

lemma extends_log_fail:
  "k \<le> rk c \<Longrightarrow> extends_log rk k st (Some e, logged st c (Some e) w)"
  by (simp add: extends_log_def logged_def chain_ok_fail)

lemma extends_log_last:
  "k \<le> rk c \<Longrightarrow> extends_log rk k st (r, logged st c r w)"
  by (cases r) (simp_all add: extends_log_def logged_def chain_ok_def)

lemma extends_log_step:
  assumes "extends_log rk (Suc (rk c)) st1 R"
    and "trace st1 = trace st @ [(c, None)]" and "k \<le> rk c"
  shows "extends_log rk k st R"
proof -
  from assms(1) obtain evs where t: "trace (snd R) = trace st1 @ evs"
    and c: "chain_ok rk (Suc (rk c)) (fst R) evs"
    by (auto simp: extends_log_def)
  from t assms(2) have "trace (snd R) = trace st @ (c, None) # evs" by simp
  moreover from c assms(3) have "chain_ok rk k (fst R) ((c, None) # evs)"
    by (simp add: chain_ok_step)
  ultimately show ?thesis unfolding extends_log_def by blast
qed

lemma extends_log_skip: "extends_log rk k st R \<Longrightarrow> j \<le> k \<Longrightarrow> extends_log rk j st R"
  by (auto simp: extends_log_def intro: chain_ok_mono)

lemma extends_log_new_events:
  assumes "extends_log rk k st R"
  shows "trace (snd R) = trace st @ new_events st (snd R)"
    and "chain_ok rk k (fst R) (new_events st (snd R))"
  using assms by (auto simp: extends_log_def new_events_def)

lemma trace_logged: "trace (logged st c r w) = trace st @ [(c, r)]"
  by (simp add: logged_def)

lemma UpdateRepo_commit_log: "extends_log rank_update_repo 6 st (UpdateRepo_commit st)"
  by (simp add: UpdateRepo_commit_def commit_def extends_log_fail)

lemma UpdateRepo_build_log: "extends_log rank_update_repo 5 st (UpdateRepo_build env st)"
  unfolding UpdateRepo_build_def Let_def
  by (auto split: prod.split option.split
      intro!: extends_log_fail extends_log_step [OF UpdateRepo_commit_log [THEN extends_log_skip]]
      simp: trace_logged)


lemma UpdateRepo_clean_log: "extends_log rank_update_repo 4 st (UpdateRepo_clean env st)"
  unfolding UpdateRepo_clean_def Let_def
  by (auto split: prod.split option.split
      intro!: extends_log_fail extends_log_step [OF UpdateRepo_build_log [THEN extends_log_skip]]
      simp: trace_logged)

lemma UpdateRepo_generate_log: "extends_log rank_update_repo 3 st (UpdateRepo_generate env st)"
  unfolding UpdateRepo_generate_def Let_def
  by (auto split: prod.split option.split
      intro!: extends_log_fail extends_log_step [OF UpdateRepo_clean_log [THEN extends_log_skip]]
      simp: trace_logged)

lemma UpdateRepo_cloneLanguageRepo_log:
  "extends_log rank_update_repo 2 st (UpdateRepo_cloneLanguageRepo env st)"
  unfolding UpdateRepo_cloneLanguageRepo_def
  by (auto split: prod.split sum.split
      intro!: extends_log_fail extends_log_step [OF UpdateRepo_generate_log [THEN extends_log_skip]]
      simp: trace_logged)

lemma UpdateRepo_output_log: "extends_log rank_update_repo 1 st (UpdateRepo_output env st)"
  unfolding UpdateRepo_output_def
  by (auto split: prod.split sum.split
      intro!: extends_log_fail UpdateRepo_cloneLanguageRepo_log [THEN extends_log_skip]
        extends_log_step [OF UpdateRepo_cloneLanguageRepo_log [THEN extends_log_skip]]
      simp: trace_logged)

lemma UpdateRepo_apiRoot_log: "extends_log rank_update_repo 0 st (UpdateRepo_apiRoot env st)"
  unfolding UpdateRepo_apiRoot_def
  by (auto split: prod.split sum.split
      intro!: extends_log_fail UpdateRepo_output_log [THEN extends_log_skip]
        extends_log_step [OF UpdateRepo_output_log [THEN extends_log_skip]]
      simp: trace_logged)

lemma Generate_generate_log: "extends_log rank_generate 4 st (Generate_generate env st)"
  unfolding Generate_generate_def Let_def
  by (auto split: prod.split intro!: extends_log_last)

lemma Generate_output_log: "extends_log rank_generate 3 st (Generate_output env st)"
  unfolding Generate_output_def
  by (auto split: prod.split sum.split
      intro!: extends_log_fail Generate_generate_log [THEN extends_log_skip]
        extends_log_step [OF Generate_generate_log [THEN extends_log_skip]]
      simp: trace_logged)

lemma Generate_verify_log: "extends_log rank_generate 2 st (Generate_verify env st)"
  unfolding Generate_verify_def Let_def
  by (auto split: option.split
      intro!: extends_log_fail extends_log_step [OF Generate_output_log [THEN extends_log_skip]]
      simp: trace_logged)

lemma Generate_repoRoot_log: "extends_log rank_generate 1 st (Generate_repoRoot env st)"
  unfolding Generate_repoRoot_def
  by (auto split: prod.split sum.split
      intro!: extends_log_fail Generate_verify_log [THEN extends_log_skip]
        extends_log_step [OF Generate_verify_log [THEN extends_log_skip]]
      simp: trace_logged)

lemma Generate_apiRoot_log: "extends_log rank_generate 0 st (Generate_apiRoot env st)"
  unfolding Generate_apiRoot_def
  by (auto split: prod.split sum.split
      intro!: extends_log_fail Generate_repoRoot_log [THEN extends_log_skip]
        extends_log_step [OF Generate_repoRoot_log [THEN extends_log_skip]]
      simp: trace_logged)

subsection \<open>A failed call is the last one\<close>

lemma stops_at_failure_last:
  "stops_at_failure evs \<Longrightarrow> (c, Some e) \<in> set evs \<Longrightarrow>
     \<exists>pre. evs = pre @ [(c, Some e)] \<and> list_all (\<lambda>ev. snd ev = None) pre"
proof (induction evs rule: stops_at_failure.induct)
  case 1
  then show ?case by simp
next
  case (2 c' e' evs)
  then show ?case by auto
next
  case (3 c' evs)
  then obtain pre where "evs = pre @ [(c, Some e)]" "list_all (\<lambda>ev. snd ev = None) pre"
    by auto
  then have "(c', None) # evs = ((c', None) # pre) @ [(c, Some e)]
      \<and> list_all (\<lambda>ev. snd ev = None) ((c', None) # pre)" by simp
  then show ?case by blast
qed

lemma first_failure_last:
  "list_all (\<lambda>ev. snd ev = None) pre \<Longrightarrow> first_failure (pre @ [(c, Some e)]) = Some e"
  by (induction pre rule: first_failure.induct) auto

lemma sorted_before_last:
  "sorted_wrt (<) (map f (pre @ [x])) \<Longrightarrow> list_all (\<lambda>y. f y < f x) pre"
  by (auto simp: sorted_wrt_append list_all_iff)

lemma failed_clean_decides:
  assumes "chain_ok rank_update_repo k r evs" and "(CallClean l out p, Some e) \<in> set evs"
  shows "r = Some e \<and> filter (\<lambda>ev. after_clean (fst ev)) evs = []"
proof -
  from assms obtain pre where evs: "evs = pre @ [(CallClean l out p, Some e)]"
    and pre: "list_all (\<lambda>ev. snd ev = None) pre"
    using stops_at_failure_last by (fastforce simp: chain_ok_def)
  from assms(1) evs pre have r: "r = Some e" by (simp add: chain_ok_def first_failure_last)
  from assms(1) evs have "list_all (\<lambda>y. (rank_update_repo \<circ> fst) y < 4) pre"
    using sorted_before_last [of "rank_update_repo \<circ> fst" pre "(CallClean l out p, Some e)"]
    by (simp add: chain_ok_def)
  then have "\<forall>ev \<in> set pre. \<not> after_clean (fst ev)"
  proof (unfold list_all_iff, intro ballI)
    fix ev assume a: "\<forall>y\<in>set pre. (rank_update_repo \<circ> fst) y < 4" and b: "ev \<in> set pre"
    then have "rank_update_repo (fst ev) < 4" by auto
    then show "\<not> after_clean (fst ev)" by (cases "fst ev") auto
  qed
  with evs have "filter (\<lambda>ev. after_clean (fst ev)) evs = []"
    by (auto simp: filter_empty_conv)
  with r show ?thesis by simp
qed


lemmas update_repo_defs =
  CmdUpdateRepo_Run_def UpdateRepo_apiRoot_def UpdateRepo_output_def
  UpdateRepo_cloneLanguageRepo_def UpdateRepo_generate_def UpdateRepo_clean_def
  UpdateRepo_build_def UpdateRepo_commit_def commit_def push_def logged_def


lemmas example_defs =
  example_env_def example_state_def example_flags_def example_world_def

text \<open>
  C1. In update-repo a step that fails is the last call of the run, and when the
  validation has passed the error returned is the error of the first call that failed.
  So when \<^verbatim>\<open>container.Clean\<close> returns an error, that error is the one returned, as it
  is, and the run has called neither \<^verbatim>\<open>container.Build\<close> nor \<open>commit\<close> nor \<open>push\<close>.
  The same holds of the calls of generate.
\<close>

theorem update_repo_stops_at_first_failure:
  "(let R = CmdUpdateRepo_Run env st; evs = new_events st (snd R) in
      trace (snd R) = trace st @ evs
      \<and> stops_at_failure evs
      \<and> (flagAPIPath (flags st) \<noteq> [] \<and> supportedLanguages env (flagLanguage (flags st))
           \<longrightarrow> fst R = first_failure evs)
      \<and> ((CallClean l out p, Some e) \<in> set evs
           \<longrightarrow> fst R = Some e \<and> filter (\<lambda>ev. after_clean (fst ev)) evs = []))
   \<and> (let R = CmdGenerate_Run env st; evs = new_events st (snd R) in
      trace (snd R) = trace st @ evs
      \<and> stops_at_failure evs
      \<and> (flagAPIPath (flags st) \<noteq> [] \<and> supportedLanguages env (flagLanguage (flags st))
           \<longrightarrow> fst R = first_failure evs))"
proof -
  have u: "extends_log rank_update_repo 0 st (CmdUpdateRepo_Run env st)"
    if "flagAPIPath (flags st) \<noteq> []" "supportedLanguages env (flagLanguage (flags st))"
    using that by (simp add: CmdUpdateRepo_Run_def UpdateRepo_apiRoot_log)
  have g: "extends_log rank_generate 0 st (CmdGenerate_Run env st)"
    if "flagAPIPath (flags st) \<noteq> []" "supportedLanguages env (flagLanguage (flags st))"
    using that by (simp add: CmdGenerate_Run_def Generate_apiRoot_log)
  show ?thesis
  proof (cases "flagAPIPath (flags st) \<noteq> [] \<and> supportedLanguages env (flagLanguage (flags st))")
    case True
    then have u': "extends_log rank_update_repo 0 st (CmdUpdateRepo_Run env st)"
      and g': "extends_log rank_generate 0 st (CmdGenerate_Run env st)"
      using u g by simp_all
    note un = extends_log_new_events [OF u'] and gn = extends_log_new_events [OF g']
    have "(CallClean l out p, Some e) \<in> set (new_events st (snd (CmdUpdateRepo_Run env st)))
        \<longrightarrow> fst (CmdUpdateRepo_Run env st) = Some e
          \<and> filter (\<lambda>ev. after_clean (fst ev)) (new_events st (snd (CmdUpdateRepo_Run env st))) = []"
      using failed_clean_decides [OF un(2)] by blast
    with un gn show ?thesis by (simp add: Let_def chain_ok_def)
  next
    case False
    then have "snd (CmdUpdateRepo_Run env st) = st" "snd (CmdGenerate_Run env st) = st"
      by (auto simp: CmdUpdateRepo_Run_def CmdGenerate_Run_def)
    with False show ?thesis by (auto simp: Let_def new_events_def)
  qed
qed

text \<open>The run of the example with a failing \<^verbatim>\<open>container.Clean\<close>.\<close>

theorem update_repo_stops_at_first_failure_witness:
  "new_events example_state (snd (CmdUpdateRepo_Run example_env_clean_fails example_state))
     = [(CallCloneLanguageRepo ''dotnet'', None),
        (CallGenerate ''dotnet'' ''/src/googleapis'' ''google/spanner/v1'' ''/out'' [], None),
        (CallClean ''dotnet'' ''/out'' ''google/spanner/v1'', Some (External ''clean failed''))]
   \<and> fst (CmdUpdateRepo_Run example_env_clean_fails example_state) = Some (External ''clean failed'')
   \<and> filter (\<lambda>ev. after_clean (fst ev))
        (new_events example_state (snd (CmdUpdateRepo_Run example_env_clean_fails example_state)))
      = []"
proof -
  let ?R = "CmdUpdateRepo_Run example_env_clean_fails example_state"
  have ev: "new_events example_state (snd ?R)
     = [(CallCloneLanguageRepo ''dotnet'', None),
        (CallGenerate ''dotnet'' ''/src/googleapis'' ''google/spanner/v1'' ''/out'' [], None),
        (CallClean ''dotnet'' ''/out'' ''google/spanner/v1'', Some (External ''clean failed''))]"
    by (simp add: new_events_def update_repo_defs example_env_clean_fails_def example_defs)
  then have "(CallClean ''dotnet'' ''/out'' ''google/spanner/v1'', Some (External ''clean failed''))
      \<in> set (new_events example_state (snd ?R))" by simp
  with update_repo_stops_at_first_failure [of example_env_clean_fails example_state
      "''dotnet''" "''/out''" "''google/spanner/v1''" "External ''clean failed''"]
  have "fst ?R = Some (External ''clean failed'')
      \<and> filter (\<lambda>ev. after_clean (fst ev)) (new_events example_state (snd ?R)) = []"
    by (simp add: Let_def)
  with ev show ?thesis by simp
qed

section \<open>The commands are the chains of the specification\<close>

lemma run_steps_last: "run_steps [s] st = s st"
  by (simp split: prod.split option.split)

lemma UpdateRepo_commit_chain: "UpdateRepo_commit st = run_steps [step_commit, step_push] st"
  by (simp add: UpdateRepo_commit_def step_commit_def step_push_def commit_def push_def)

lemma UpdateRepo_build_chain:
  "UpdateRepo_build env st = run_steps [step_build env, step_commit, step_push] st"
  by (simp add: UpdateRepo_build_def step_build_def UpdateRepo_commit_chain Let_def
      split: prod.split option.split)

lemma UpdateRepo_clean_chain:
  "UpdateRepo_clean env st = run_steps [step_clean env, step_build env, step_commit, step_push] st"
  by (simp add: UpdateRepo_clean_def step_clean_def UpdateRepo_build_chain Let_def
      split: prod.split option.split)

lemma UpdateRepo_generate_chain:
  "UpdateRepo_generate env st
     = run_steps [step_generate env, step_clean env, step_build env, step_commit, step_push] st"
  by (simp add: UpdateRepo_generate_def step_generate_def UpdateRepo_clean_chain Let_def
      split: prod.split option.split)

lemma UpdateRepo_cloneLanguageRepo_chain:
  "UpdateRepo_cloneLanguageRepo env st
     = run_steps [step_cloneLanguageRepo env, step_generate env, step_clean env, step_build env,
         step_commit, step_push] st"
  by (simp add: UpdateRepo_cloneLanguageRepo_def step_cloneLanguageRepo_def err_of_def
      UpdateRepo_generate_chain split: prod.split sum.split)

lemma UpdateRepo_output_chain:
  "UpdateRepo_output env st
     = run_steps [step_allocate, step_cloneLanguageRepo env, step_generate env, step_clean env,
         step_build env, step_commit, step_push] st"
  by (simp add: UpdateRepo_output_def step_allocate_def UpdateRepo_cloneLanguageRepo_chain
      split: prod.split sum.split)

lemma UpdateRepo_apiRoot_chain:
  "UpdateRepo_apiRoot env st
     = run_steps [step_resolveAPIDefinitions env, step_allocate, step_cloneLanguageRepo env,
         step_generate env, step_clean env, step_build env, step_commit, step_push] st"
  by (simp add: UpdateRepo_apiRoot_def step_resolveAPIDefinitions_def UpdateRepo_output_chain
      split: prod.split sum.split)

text \<open>
  C2. update-repo is the chain: validate the API path and the language; if the API root
  is empty, clone the API definitions and set it; if the output is empty, allocate a
  working directory; clone the repository of the language (with no condition on the
  repository root); then the driver's generate, clean and build, then commit and push.
  A step runs only when every step before it returned nil.
\<close>

theorem update_repo_is_chain:
  "CmdUpdateRepo_Run env st
     = run_steps [step_validate env, step_resolveAPIDefinitions env, step_allocate,
         step_cloneLanguageRepo env, step_generate env, step_clean env, step_build env,
         step_commit, step_push] st"
  by (simp add: CmdUpdateRepo_Run_def step_validate_def UpdateRepo_apiRoot_chain)


lemmas step_defs =
  step_validate_def step_resolveAPIDefinitions_def step_allocate_def step_cloneLanguageRepo_def
  step_resolveLanguageRepo_def step_verifyLanguageRepoExists_def step_generate_def
  step_clean_def step_build_def step_commit_def step_push_def err_of_def logged_def
  commit_def push_def Let_def

lemma defaultOutput_example:
  "TMPDIR w = [] \<Longrightarrow> stat_fault w = (\<lambda>p. None) \<Longrightarrow> mkdir_fault w = (\<lambda>p. None) \<Longrightarrow>
   ''/tmp/generator-20240309140507'' \<notin> paths w \<Longrightarrow>
   defaultOutput example_time w
     = (Inr ''/tmp/generator-20240309140507'',
        w\<lparr>paths := insert ''/tmp/generator-20240309140507'' (paths w)\<rparr>)"
  by (simp add: defaultOutput_def defaultOutput_path_example os_Stat_def os_Mkdir_def Let_def)

text \<open>
  The chain on the example with no API root and no output, and a repository root that is
  set: the language repository is cloned all the same.
\<close>

theorem update_repo_is_chain_witness:
  "trace (snd (CmdUpdateRepo_Run example_env
       (example_state_unresolved\<lparr>flags := (flags example_state_unresolved)\<lparr>flagRepoRoot := ''/work''\<rparr>\<rparr>)))
     = [(CallCloneGoogleapis, None),
        (CallDefaultOutput example_time, None),
        (CallCloneLanguageRepo ''dotnet'', None),
        (CallGenerate ''dotnet'' ''/work/googleapis'' ''google/spanner/v1''
           ''/tmp/generator-20240309140507'' [], None),
        (CallClean ''dotnet'' ''/tmp/generator-20240309140507'' ''google/spanner/v1'', None),
        (CallBuild ''dotnet'' ''/tmp/generator-20240309140507'' ''google/spanner/v1'', None),
        (CallCommit, Some (Errorf ''commit is not implemented'' []))]"
  by (simp add: update_repo_is_chain step_defs example_state_unresolved_def example_defs
      time_Now_def defaultOutput_example)

subsection \<open>generate\<close>

lemma Generate_generate_chain: "Generate_generate env st = run_steps [step_generate env] st"
  by (simp add: Generate_generate_def step_generate_def Let_def split: prod.split option.split)

lemma Generate_output_chain:
  "Generate_output env st = run_steps [step_allocate, step_generate env] st"
  by (simp add: Generate_output_def step_allocate_def Generate_generate_chain
      split: prod.split sum.split)

lemma Generate_verify_chain:
  "Generate_verify env st
     = run_steps [step_verifyLanguageRepoExists, step_allocate, step_generate env] st"
  by (simp add: Generate_verify_def step_verifyLanguageRepoExists_def Generate_output_chain
      Let_def split: option.split)

lemma Generate_repoRoot_chain:
  "Generate_repoRoot env st
     = run_steps [step_resolveLanguageRepo env, step_verifyLanguageRepoExists, step_allocate,
         step_generate env] st"
  by (simp add: Generate_repoRoot_def step_resolveLanguageRepo_def Generate_verify_chain
      split: prod.split sum.split)

lemma Generate_apiRoot_chain:
  "Generate_apiRoot env st
     = run_steps [step_resolveAPIDefinitions env, step_resolveLanguageRepo env,
         step_verifyLanguageRepoExists, step_allocate, step_generate env] st"
  by (simp add: Generate_apiRoot_def step_resolveAPIDefinitions_def Generate_repoRoot_chain
      split: prod.split sum.split)

text \<open>
  C4. generate first validates the API path and the language: with an API path and an
  unsupported language it returns the error "invalid -language flag specified" and the
  state as it was, so no directory was created and nothing was cloned or called. When
  the validation passes it is the chain: if the API root is empty, clone the API
  definitions and set it; if the repository root is empty, clone the repository of the
  language and set the root to the parent directory of the clone; verify that the
  repository of the language exists under the root; if the output is empty, allocate a
  working directory; call the driver's generate with the language, the API root, the
  API path, the output and the generator input.
\<close>

theorem generate_is_chain:
  "CmdGenerate_Run env st
     = run_steps [step_validate env, step_resolveAPIDefinitions env, step_resolveLanguageRepo env,
         step_verifyLanguageRepoExists, step_allocate, step_generate env] st
   \<and> (flagAPIPath (flags st) \<noteq> [] \<and> \<not> supportedLanguages env (flagLanguage (flags st))
      \<longrightarrow> CmdGenerate_Run env st
            = (Some (Errorf ''invalid -language flag specified: %q'' [flagLanguage (flags st)]), st))
   \<and> (flagAPIPath (flags st) = []
      \<longrightarrow> CmdGenerate_Run env st = (Some (Errorf ''-api-path is not provided'' []), st))"
  by (simp add: CmdGenerate_Run_def step_validate_def Generate_apiRoot_chain)

text \<open>
  The unsupported language of the specification's scenario, a repository root without
  the repository, and the whole chain on the example with nothing resolved.
\<close>

theorem generate_is_chain_witness:
  "CmdGenerate_Run example_env (example_state\<lparr>flags := example_flags\<lparr>flagLanguage := ''python''\<rparr>\<rparr>)
     = (Some (Errorf ''invalid -language flag specified: %q'' [''python'']),
        example_state\<lparr>flags := example_flags\<lparr>flagLanguage := ''python''\<rparr>\<rparr>)
   \<and> CmdGenerate_Run example_env (example_state\<lparr>flags := example_flags\<lparr>flagAPIPath := []\<rparr>\<rparr>)
     = (Some (Errorf ''-api-path is not provided'' []),
        example_state\<lparr>flags := example_flags\<lparr>flagAPIPath := []\<rparr>\<rparr>)
   \<and> fst (CmdGenerate_Run example_env
         (example_state\<lparr>flags := example_flags\<lparr>flagRepoRoot := ''/elsewhere''\<rparr>\<rparr>))
     = Some (Errorf ''language repo not found: %s'' [''/elsewhere/google-cloud-dotnet''])
   \<and> fst (CmdGenerate_Run example_env example_state_unresolved) = None
   \<and> trace (snd (CmdGenerate_Run example_env example_state_unresolved))
     = [(CallCloneGoogleapis, None),
        (CallCloneLanguageRepo ''dotnet'', None),
        (CallVerifyLanguageRepoExists ''/work'' ''dotnet'', None),
        (CallDefaultOutput example_time, None),
        (CallGenerate ''dotnet'' ''/work/googleapis'' ''google/spanner/v1''
           ''/tmp/generator-20240309140507'' [], None)]
   \<and> flagRepoRoot (flags (snd (CmdGenerate_Run example_env example_state_unresolved))) = ''/work''"
proof -
  let ?s1 = "example_state\<lparr>flags := example_flags\<lparr>flagLanguage := ''python''\<rparr>\<rparr>"
  let ?s2 = "example_state\<lparr>flags := example_flags\<lparr>flagAPIPath := []\<rparr>\<rparr>"
  let ?s3 = "example_state\<lparr>flags := example_flags\<lparr>flagRepoRoot := ''/elsewhere''\<rparr>\<rparr>"
  have a: "CmdGenerate_Run example_env ?s1
     = (Some (Errorf ''invalid -language flag specified: %q'' [''python'']), ?s1)"
    using generate_is_chain [THEN conjunct2, THEN conjunct1, of ?s1 example_env]
    by (simp add: example_flags_def example_env_def)
  have b: "CmdGenerate_Run example_env ?s2 = (Some (Errorf ''-api-path is not provided'' []), ?s2)"
    using generate_is_chain [THEN conjunct2, THEN conjunct2, of ?s2 example_env]
    by (simp add: example_flags_def)
  have dir: "filepath_Dir ''/work/google-cloud-dotnet'' = ''/work''"
    by (simp add: filepath_Dir_def filepath_Clean_def keepc_def clean_step_def)
  have p2: "languageRepo_path ''/elsewhere'' ''dotnet'' = ''/elsewhere/google-cloud-dotnet''"
    by (simp add: languageRepo_path_def filepath_Join_def filepath_Clean_def keepc_def
        clean_step_def)
  have c: "fst (CmdGenerate_Run example_env ?s3)
     = Some (Errorf ''language repo not found: %s'' [''/elsewhere/google-cloud-dotnet''])"
    by (simp add: generate_is_chain [THEN conjunct1] step_defs example_defs
        verifyLanguageRepoExists_def p2 os_Stat_def)
  have d: "fst (CmdGenerate_Run example_env example_state_unresolved) = None
   \<and> trace (snd (CmdGenerate_Run example_env example_state_unresolved))
     = [(CallCloneGoogleapis, None),
        (CallCloneLanguageRepo ''dotnet'', None),
        (CallVerifyLanguageRepoExists ''/work'' ''dotnet'', None),
        (CallDefaultOutput example_time, None),
        (CallGenerate ''dotnet'' ''/work/googleapis'' ''google/spanner/v1''
           ''/tmp/generator-20240309140507'' [], None)]
   \<and> flagRepoRoot (flags (snd (CmdGenerate_Run example_env example_state_unresolved))) = ''/work''"
    by (simp add: generate_is_chain [THEN conjunct1] step_defs example_state_unresolved_def
        example_defs time_Now_def defaultOutput_example dir verifyLanguageRepoExists_def
        languageRepo_path_example os_Stat_def)
  from a b c d show ?thesis by blast
qed

section \<open>The flag variables after a run\<close>















section \<open>A push without a token\<close>

lemma run_steps_with_push:
  assumes "\<And>s st. s \<in> set ss \<Longrightarrow> s (with_push b tok st) = (fst (s st), with_push b tok (snd (s st)))"
  shows "run_steps ss (with_push b tok st)
           = (fst (run_steps ss st), with_push b tok (snd (run_steps ss st)))"
  using assms
proof (induction ss arbitrary: st)
  case Nil
  show ?case by simp
next
  case (Cons s ss)
  have s: "s (with_push b tok st) = (fst (s st), with_push b tok (snd (s st)))"
    by (rule Cons.prems) simp
  have rest: "run_steps ss (with_push b tok (snd (s st)))
      = (fst (run_steps ss (snd (s st))), with_push b tok (snd (run_steps ss (snd (s st)))))"
    by (rule Cons.IH) (simp add: Cons.prems)
  show ?case
    using s rest by (cases "s st") (auto split: option.split)
qed

lemma steps_with_push:
  "step_resolveAPIDefinitions env (with_push b tok st)
     = (fst (step_resolveAPIDefinitions env st), with_push b tok (snd (step_resolveAPIDefinitions env st)))"
  "step_allocate (with_push b tok st)
     = (fst (step_allocate st), with_push b tok (snd (step_allocate st)))"
  "step_cloneLanguageRepo env (with_push b tok st)
     = (fst (step_cloneLanguageRepo env st), with_push b tok (snd (step_cloneLanguageRepo env st)))"
  "step_generate env (with_push b tok st)
     = (fst (step_generate env st), with_push b tok (snd (step_generate env st)))"
  "step_clean env (with_push b tok st)
     = (fst (step_clean env st), with_push b tok (snd (step_clean env st)))"
  "step_build env (with_push b tok st)
     = (fst (step_build env st), with_push b tok (snd (step_build env st)))"
  "step_commit (with_push b tok st) = (fst (step_commit st), with_push b tok (snd (step_commit st)))"
  "step_push (with_push b tok st) = (fst (step_push st), with_push b tok (snd (step_push st)))"
  by (simp_all add: step_resolveAPIDefinitions_def step_allocate_def step_cloneLanguageRepo_def
      step_generate_def step_clean_def step_build_def step_commit_def step_push_def
      with_push_def logged_def Let_def split: prod.split sum.split)

lemma CmdUpdateRepo_Run_with_push:
  "CmdUpdateRepo_Run env (with_push b tok st)
     = (fst (CmdUpdateRepo_Run env st), with_push b tok (snd (CmdUpdateRepo_Run env st)))"
proof (cases "flagAPIPath (flags st) \<noteq> [] \<and> supportedLanguages env (flagLanguage (flags st))")
  case True
  let ?ss = "[step_resolveAPIDefinitions env, step_allocate, step_cloneLanguageRepo env,
         step_generate env, step_clean env, step_build env, step_commit, step_push]"
  have "run_steps ?ss (with_push b tok st)
      = (fst (run_steps ?ss st), with_push b tok (snd (run_steps ?ss st)))"
    by (rule run_steps_with_push) (auto simp: steps_with_push)
  with True show ?thesis
    by (simp add: CmdUpdateRepo_Run_def UpdateRepo_apiRoot_chain with_push_def)
next
  case False
  then show ?thesis by (auto simp: CmdUpdateRepo_Run_def with_push_def)
qed

text \<open>
  C7 asks every command to reject a push without a token before any generation step.
  configure does; update-repo, the command that registers both \<^verbatim>\<open>-push\<close> and
  \<^verbatim>\<open>-github-token\<close> and ends with \<open>push\<close>, never reads either flag variable. On the
  example with the push flag set and no token, configure returns the error about the
  token, and update-repo clones, generates, cleans, builds and reaches \<open>commit\<close>. In
  general, update-repo returns the same error and makes the same calls whatever the push
  flag and the token are.
\<close>

theorem update_repo_runs_push_without_token:
  "CmdUpdateRepo_Run env (with_push b tok st)
     = (fst (CmdUpdateRepo_Run env st), with_push b tok (snd (CmdUpdateRepo_Run env st)))
   \<and> flagPush (flags (example_state\<lparr>flags := example_flags\<lparr>flagPush := True\<rparr>\<rparr>))
   \<and> flagGitHubToken (flags (example_state\<lparr>flags := example_flags\<lparr>flagPush := True\<rparr>\<rparr>)) = []
   \<and> fst (CmdConfigure_Run example_env (example_state\<lparr>flags := example_flags\<lparr>flagPush := True\<rparr>\<rparr>))
       = Some (Errorf ''-github-token must be provided if -push is set to true'' [])
   \<and> fst (CmdUpdateRepo_Run example_env (example_state\<lparr>flags := example_flags\<lparr>flagPush := True\<rparr>\<rparr>))
       = Some (Errorf ''commit is not implemented'' [])
   \<and> trace (snd (CmdUpdateRepo_Run example_env
         (example_state\<lparr>flags := example_flags\<lparr>flagPush := True\<rparr>\<rparr>)))
       = [(CallCloneLanguageRepo ''dotnet'', None),
          (CallGenerate ''dotnet'' ''/src/googleapis'' ''google/spanner/v1'' ''/out'' [], None),
          (CallClean ''dotnet'' ''/out'' ''google/spanner/v1'', None),
          (CallBuild ''dotnet'' ''/out'' ''google/spanner/v1'', None),
          (CallCommit, Some (Errorf ''commit is not implemented'' []))]"
  by (simp add: CmdUpdateRepo_Run_with_push)
    (simp add: update_repo_defs CmdConfigure_Run_def Let_def example_defs)

section \<open>The layout can be read back\<close>

lemma digit_val_digit_char: "n < 10 \<Longrightarrow> digit_val (digit_char n) = n"
proof -
  assume "n < 10"
  then have "n \<in> {0, 1, 2, 3, 4, 5, 6, 7, 8, 9}" by auto
  then show ?thesis by (auto simp: digit_val_def digit_char_def)
qed

lemma digit_char_in: "n < 10 \<Longrightarrow> digit_char n \<in> set ''0123456789''"
  by (simp add: digit_char_def del: set_simps)

lemma decimal_nonempty: "decimal n \<noteq> []"
  by (subst decimal.simps) simp

lemma set_decimal: "set (decimal n) \<subseteq> set ''0123456789''"
proof (induction n rule: decimal.induct)
  case (1 n)
  show ?case
  proof (cases "n < 10")
    case True
    then show ?thesis using digit_char_in [of n] by (subst decimal.simps) simp
  next
    case False
    moreover have "digit_char (n mod 10) \<in> set ''0123456789''" by (rule digit_char_in) simp
    ultimately show ?thesis using 1 by (subst decimal.simps) simp
  qed
qed

lemma decimal_val_snoc: "decimal_val (s @ [c]) = 10 * decimal_val s + digit_val c"
  by (simp add: decimal_val_def)

lemma decimal_val_decimal: "decimal_val (decimal n) = n"
proof (induction n rule: decimal.induct)
  case (1 n)
  show ?case
  proof (cases "n < 10")
    case True
    then show ?thesis
      by (subst decimal.simps) (simp add: decimal_val_def digit_val_digit_char)
  next
    case False
    with 1 have "decimal_val (decimal (n div 10)) = n div 10" by simp
    with False show ?thesis
      by (subst decimal.simps) (simp add: decimal_val_snoc digit_val_digit_char)
  qed
qed

lemma decimal_val_zeros: "decimal_val (replicate k (CHR ''0'') @ s) = decimal_val s"
proof -
  have "foldl (\<lambda>a c. 10 * a + digit_val c) 0 (replicate k (CHR ''0'')) = 0"
    by (induction k) (simp_all add: digit_val_def)
  then show ?thesis by (simp add: decimal_val_def)
qed

lemma appendInt_inj:
  assumes "appendInt x w = appendInt y w"
  shows "x = y"
proof -
  let ?P = "\<lambda>z::int. replicate (w - length (decimal (nat \<bar>z\<bar>))) (CHR ''0'') @ decimal (nat \<bar>z\<bar>)"
  have val: "decimal_val (?P z) = nat \<bar>z\<bar>" for z
    by (simp add: decimal_val_zeros decimal_val_decimal)
  have nominus: "CHR ''-'' \<notin> set (?P z)" for z
    using set_decimal [of "nat \<bar>z\<bar>"] by auto
  have ne: "?P z \<noteq> []" for z by (simp add: decimal_nonempty)
  have app: "appendInt z w = (if z < 0 then CHR ''-'' # ?P z else ?P z)" for z
    by (simp add: appendInt_def Let_def)
  consider "x < 0" "y < 0" | "x < 0" "0 \<le> y" | "0 \<le> x" "y < 0" | "0 \<le> x" "0 \<le> y"
    by linarith
  then show ?thesis
  proof cases
    case 1
    with assms app have "?P x = ?P y" by simp
    then have "decimal_val (?P x) = decimal_val (?P y)" by simp
    with val have "nat \<bar>x\<bar> = nat \<bar>y\<bar>" by simp
    with 1 show ?thesis by simp
  next
    case 2
    with assms app have "CHR ''-'' # ?P x = ?P y" by simp
    then have "CHR ''-'' \<in> set (?P y)" by (metis list.set_intros(1))
    with nominus show ?thesis by blast
  next
    case 3
    with assms app have "?P x = CHR ''-'' # ?P y" by simp
    then have "CHR ''-'' \<in> set (?P x)" by (metis list.set_intros(1))
    with nominus show ?thesis by blast
  next
    case 4
    with assms app have "?P x = ?P y" by simp
    then have "decimal_val (?P x) = decimal_val (?P y)" by simp
    with val have "nat \<bar>x\<bar> = nat \<bar>y\<bar>" by simp
    with 4 show ?thesis by simp
  qed
qed

lemma set_appendInt: "CHR ''/'' \<notin> set (appendInt x w)"
  using set_decimal [of "nat \<bar>x\<bar>"] by (auto simp: appendInt_def Let_def)

lemma time_Format_no_separator: "CHR ''/'' \<notin> set (time_Format t)"
  by (simp add: time_Format_def set_appendInt)

lemma length_appendInt2: "n < 100 \<Longrightarrow> length (appendInt (int n) 2) = 2"
  by (rule length_appendInt) simp_all

lemma time_Format_inj:
  assumes v1: "valid_time t1" and v2: "valid_time t2"
    and eq: "time_Format t1 = time_Format t2"
  shows "second_reading t1 = second_reading t2"
proof -
  note l1 = v1 [unfolded valid_time_def] and l2 = v2 [unfolded valid_time_def]
  have len1: "length (appendInt (int (month t1)) 2) = 2" "length (appendInt (int (day t1)) 2) = 2"
    "length (appendInt (int (hour t1)) 2) = 2" "length (appendInt (int (minute t1)) 2) = 2"
    "length (appendInt (int (second t1)) 2) = 2"
    using l1 by (simp_all add: length_appendInt2)
  have len2: "length (appendInt (int (month t2)) 2) = 2" "length (appendInt (int (day t2)) 2) = 2"
    "length (appendInt (int (hour t2)) 2) = 2" "length (appendInt (int (minute t2)) 2) = 2"
    "length (appendInt (int (second t2)) 2) = 2"
    using l2 by (simp_all add: length_appendInt2)
  from eq have "length (time_Format t1) = length (time_Format t2)" by simp
  then have ly: "length (appendInt (year t1) 4) = length (appendInt (year t2) 4)"
    by (simp add: time_Format_def len1 len2)
  from eq ly have y: "appendInt (year t1) 4 = appendInt (year t2) 4"
    and r1: "appendInt (int (month t1)) 2 @ appendInt (int (day t1)) 2
       @ appendInt (int (hour t1)) 2 @ appendInt (int (minute t1)) 2 @ appendInt (int (second t1)) 2
     = appendInt (int (month t2)) 2 @ appendInt (int (day t2)) 2
       @ appendInt (int (hour t2)) 2 @ appendInt (int (minute t2)) 2 @ appendInt (int (second t2)) 2"
    by (simp_all add: time_Format_def)
  from r1 len1 len2 have m: "appendInt (int (month t1)) 2 = appendInt (int (month t2)) 2"
    and d: "appendInt (int (day t1)) 2 = appendInt (int (day t2)) 2"
    and h: "appendInt (int (hour t1)) 2 = appendInt (int (hour t2)) 2"
    and mi: "appendInt (int (minute t1)) 2 = appendInt (int (minute t2)) 2"
    and s: "appendInt (int (second t1)) 2 = appendInt (int (second t2)) 2"
    by simp_all
  from y m d h mi s show ?thesis
    by (auto simp: second_reading_def dest!: appendInt_inj)
qed

section \<open>Joining a directory with a name\<close>

lemma splitc_nonempty: "splitc s \<noteq> []"
  by (induction s) (auto split: list.split)

lemma splitc_plain: "CHR ''/'' \<notin> set n \<Longrightarrow> splitc n = [n]"
  by (induction n) auto

lemma splitc_append_sep: "splitc (a @ CHR ''/'' # b) = splitc a @ splitc b"
proof (induction a)
  case Nil
  show ?case by simp
next
  case (Cons c a)
  obtain x xs where x: "splitc a = x # xs"
    using splitc_nonempty [of a] by (cases "splitc a") auto
  show ?case using Cons x by simp
qed

lemma join_sep_snoc:
  "join_sep (xs @ [n]) = (if xs = [] then n else join_sep xs @ ''/'' @ n)"
  by (induction xs rule: join_sep.induct) auto


text \<open>What comes before the name when a directory is joined with one.\<close>

lemma filepath_Join_plain:
  "\<exists>q. \<forall>n. plain_name n \<longrightarrow> filepath_Join d n = q @ n"
proof (cases "d = []")
  case True
  have "filepath_Join d n = [] @ n" if n: "plain_name n" for n
  proof -
    from n have "hd n \<noteq> CHR ''/''" by (cases n) (auto simp: plain_name_def)
    with n True show ?thesis
      by (simp add: filepath_Join_def filepath_Clean_def splitc_plain plain_name_def keepc_def
          clean_step_def)
  qed
  then show ?thesis by blast
next
  case False
  let ?rooted = "hd d = CHR ''/''"
  let ?stk = "foldl (clean_step ?rooted) [] (filter keepc (splitc d))"
  let ?q = "(if ?rooted then ''/'' else []) @ (if ?stk = [] then [] else join_sep (rev ?stk) @ ''/'')"
  have "filepath_Join d n = ?q @ n" if n: "plain_name n" for n
  proof -
    from False have r: "(d @ CHR ''/'' # n \<noteq> [] \<and> hd (d @ CHR ''/'' # n) = CHR ''/'') = ?rooted"
      by simp
    from n have k: "filter keepc (splitc (d @ CHR ''/'' # n)) = filter keepc (splitc d) @ [n]"
      by (simp add: splitc_append_sep splitc_plain plain_name_def keepc_def)
    from n have s: "foldl (clean_step ?rooted) [] (filter keepc (splitc d) @ [n]) = n # ?stk"
      by (simp add: clean_step_def plain_name_def)
    from n have ne: "n \<noteq> []" by (simp add: plain_name_def)
    from False have "filepath_Join d n = filepath_Clean (d @ CHR ''/'' # n)"
      by (simp add: filepath_Join_def)
    also have "\<dots> = ?q @ n"
      unfolding filepath_Clean_def r k s Let_def using ne by (simp add: join_sep_snoc)
    finally show ?thesis .
  qed
  then show ?thesis by blast
qed

lemma filepath_Join_plain_inj:
  assumes "plain_name a" "plain_name b" "filepath_Join d a = filepath_Join d b"
  shows "a = b"
proof -
  from filepath_Join_plain [of d] obtain q
    where q: "\<And>n. plain_name n \<Longrightarrow> filepath_Join d n = q @ n" by blast
  from assms q [of a] q [of b] show ?thesis by simp
qed

lemma generator_name_plain: "plain_name (''generator-'' @ time_Format t)"
  using time_Format_no_separator [of t] by (simp add: plain_name_def)

lemma defaultOutput_path_inj:
  assumes "valid_time t1" "valid_time t2"
    and "defaultOutput_path w t1 = defaultOutput_path w t2"
  shows "second_reading t1 = second_reading t2"
proof -
  from assms(3) have "''generator-'' @ time_Format t1 = ''generator-'' @ time_Format t2"
    unfolding defaultOutput_path_def
    by (rule filepath_Join_plain_inj [OF generator_name_plain generator_name_plain])
  then have "time_Format t1 = time_Format t2" by simp
  with assms(1,2) show ?thesis by (rule time_Format_inj)
qed

section \<open>Two allocations\<close>

lemma same_reading_same_path:
  "second_reading t1 = second_reading t2 \<Longrightarrow> defaultOutput_path w t1 = defaultOutput_path w t2"
  by (simp add: defaultOutput_path_def time_Format_def second_reading_def)

lemma defaultOutput_path_paths: "defaultOutput_path (w\<lparr>paths := ps\<rparr>) t = defaultOutput_path w t"
  by (simp add: defaultOutput_path_def os_TempDir_def)

lemma defaultOutput_succeeds:
  assumes "stat_fault w (defaultOutput_path w t) = None"
    and "mkdir_fault w (defaultOutput_path w t) = None"
    and "defaultOutput_path w t \<notin> paths w"
  shows "defaultOutput t w
           = (Inr (defaultOutput_path w t), w\<lparr>paths := insert (defaultOutput_path w t) (paths w)\<rparr>)"
  using assms by (simp add: defaultOutput_def os_Stat_def os_Mkdir_def Let_def)

lemma defaultOutput_Inr:
  assumes "defaultOutput t w = (Inr p, w1)"
  shows "p = defaultOutput_path w t \<and> w1 = w\<lparr>paths := insert p (paths w)\<rparr>"
  using assms
  by (auto simp: defaultOutput_def os_Mkdir_def Let_def
      split: if_splits option.splits prod.splits)

lemma defaultOutput_taken:
  assumes "stat_fault w (defaultOutput_path w t) = None" and "defaultOutput_path w t \<in> paths w"
  shows "defaultOutput t w
           = (Inl (Errorf ''default output path already exists: %s'' [defaultOutput_path w t]), w)"
  using assms by (simp add: defaultOutput_def os_Stat_def Let_def)

lemma same_offset_readings_differ:
  assumes "valid_time t1" "valid_time t2" "utc_offset t1 = utc_offset t2"
    and "1000000000 \<le> \<bar>unix_nanos t1 - unix_nanos t2\<bar>"
  shows "second_reading t1 \<noteq> second_reading t2"
proof
  assume "second_reading t1 = second_reading t2"
  with assms(3) have "unix_seconds t1 = unix_seconds t2"
    by (simp add: second_reading_def unix_seconds_def)
  then have "\<bar>unix_nanos t1 - unix_nanos t2\<bar> = \<bar>int (nanosecond t1) - int (nanosecond t2)\<bar>"
    by (simp add: unix_nanos_def)
  moreover from assms(1,2) have "\<bar>int (nanosecond t1) - int (nanosecond t2)\<bar> < 1000000000"
    by (simp add: valid_time_def abs_if)
  ultimately show False using assms(4) by simp
qed

text \<open>
  C6, as the code has it. The path is a function of the reading of the timestamp to the
  second, in the location of the timestamp. Two timestamps with the same reading give
  the same path, and when the first call has created the directory the second returns
  "default output path already exists". Two timestamps with different readings give
  different paths; so do two timestamps with the same offset from UTC that lie a second
  or more apart. When the two paths are different, neither exists, and the file system
  has no fault at either, the first call and then the second both succeed.
\<close>

theorem allocation_names_by_reading:
  "(second_reading t1 = second_reading t2
      \<longrightarrow> defaultOutput_path w t1 = defaultOutput_path w t2)
   \<and> (second_reading t1 = second_reading t2
        \<and> stat_fault w (defaultOutput_path w t1) = None
        \<and> defaultOutput t1 w = (Inr p, w1)
      \<longrightarrow> defaultOutput t2 w1
            = (Inl (Errorf ''default output path already exists: %s'' [p]), w1))
   \<and> (valid_time t1 \<and> valid_time t2 \<and> second_reading t1 \<noteq> second_reading t2
      \<longrightarrow> defaultOutput_path w t1 \<noteq> defaultOutput_path w t2)
   \<and> (valid_time t1 \<and> valid_time t2 \<and> utc_offset t1 = utc_offset t2
        \<and> 1000000000 \<le> \<bar>unix_nanos t1 - unix_nanos t2\<bar>
      \<longrightarrow> defaultOutput_path w t1 \<noteq> defaultOutput_path w t2)
   \<and> (defaultOutput_path w t1 \<noteq> defaultOutput_path w t2
        \<and> defaultOutput_path w t1 \<notin> paths w \<and> defaultOutput_path w t2 \<notin> paths w
        \<and> stat_fault w (defaultOutput_path w t1) = None
        \<and> stat_fault w (defaultOutput_path w t2) = None
        \<and> mkdir_fault w (defaultOutput_path w t1) = None
        \<and> mkdir_fault w (defaultOutput_path w t2) = None
      \<longrightarrow> defaultOutput t1 w
            = (Inr (defaultOutput_path w t1),
               w\<lparr>paths := insert (defaultOutput_path w t1) (paths w)\<rparr>)
          \<and> defaultOutput t2 (w\<lparr>paths := insert (defaultOutput_path w t1) (paths w)\<rparr>)
            = (Inr (defaultOutput_path w t2),
               w\<lparr>paths := insert (defaultOutput_path w t2)
                            (insert (defaultOutput_path w t1) (paths w))\<rparr>))"
proof -
  have a: "second_reading t1 = second_reading t2
      \<longrightarrow> defaultOutput_path w t1 = defaultOutput_path w t2"
    by (rule impI) (rule same_reading_same_path)
  have b: "second_reading t1 = second_reading t2
        \<and> stat_fault w (defaultOutput_path w t1) = None
        \<and> defaultOutput t1 w = (Inr p, w1)
      \<longrightarrow> defaultOutput t2 w1
            = (Inl (Errorf ''default output path already exists: %s'' [p]), w1)"
  proof (intro impI, elim conjE)
    assume r: "second_reading t1 = second_reading t2"
      and s: "stat_fault w (defaultOutput_path w t1) = None"
      and d: "defaultOutput t1 w = (Inr p, w1)"
    let ?p1 = "defaultOutput_path w t1"
    let ?w1 = "w\<lparr>paths := insert ?p1 (paths w)\<rparr>"
    from defaultOutput_Inr [OF d] have p: "p = ?p1" by blast
    from defaultOutput_Inr [OF d] have w1: "w1 = ?w1" unfolding p by blast
    have p2: "defaultOutput_path ?w1 t2 = ?p1"
      using same_reading_same_path [OF r, of w] by (simp add: defaultOutput_path_paths)
    have "stat_fault ?w1 (defaultOutput_path ?w1 t2) = None"
      unfolding p2 using s by simp
    moreover have "defaultOutput_path ?w1 t2 \<in> paths ?w1"
      unfolding p2 by simp
    ultimately have "defaultOutput t2 ?w1
        = (Inl (Errorf ''default output path already exists: %s'' [defaultOutput_path ?w1 t2]), ?w1)"
      by (rule defaultOutput_taken)
    then show "defaultOutput t2 w1
            = (Inl (Errorf ''default output path already exists: %s'' [p]), w1)"
      unfolding p2 p w1 .
  qed
  have c: "valid_time t1 \<and> valid_time t2 \<and> second_reading t1 \<noteq> second_reading t2
      \<longrightarrow> defaultOutput_path w t1 \<noteq> defaultOutput_path w t2"
    using defaultOutput_path_inj [of t1 t2 w] by blast
  have d: "valid_time t1 \<and> valid_time t2 \<and> utc_offset t1 = utc_offset t2
        \<and> 1000000000 \<le> \<bar>unix_nanos t1 - unix_nanos t2\<bar>
      \<longrightarrow> defaultOutput_path w t1 \<noteq> defaultOutput_path w t2"
    using same_offset_readings_differ [of t1 t2] c by blast
  have e: "defaultOutput_path w t1 \<noteq> defaultOutput_path w t2
        \<and> defaultOutput_path w t1 \<notin> paths w \<and> defaultOutput_path w t2 \<notin> paths w
        \<and> stat_fault w (defaultOutput_path w t1) = None
        \<and> stat_fault w (defaultOutput_path w t2) = None
        \<and> mkdir_fault w (defaultOutput_path w t1) = None
        \<and> mkdir_fault w (defaultOutput_path w t2) = None
      \<longrightarrow> defaultOutput t1 w
            = (Inr (defaultOutput_path w t1),
               w\<lparr>paths := insert (defaultOutput_path w t1) (paths w)\<rparr>)
          \<and> defaultOutput t2 (w\<lparr>paths := insert (defaultOutput_path w t1) (paths w)\<rparr>)
            = (Inr (defaultOutput_path w t2),
               w\<lparr>paths := insert (defaultOutput_path w t2)
                            (insert (defaultOutput_path w t1) (paths w))\<rparr>)"
  proof (intro impI, elim conjE)
    let ?p1 = "defaultOutput_path w t1" and ?p2 = "defaultOutput_path w t2"
    let ?w1 = "w\<lparr>paths := insert ?p1 (paths w)\<rparr>"
    assume ne: "?p1 \<noteq> ?p2" and n1: "?p1 \<notin> paths w" and n2: "?p2 \<notin> paths w"
      and s1: "stat_fault w ?p1 = None" and s2: "stat_fault w ?p2 = None"
      and m1: "mkdir_fault w ?p1 = None" and m2: "mkdir_fault w ?p2 = None"
    have first: "defaultOutput t1 w = (Inr ?p1, ?w1)"
      by (rule defaultOutput_succeeds [OF s1 m1 n1])
    have p2: "defaultOutput_path ?w1 t2 = ?p2" by (simp add: defaultOutput_path_paths)
    have "defaultOutput t2 ?w1
        = (Inr (defaultOutput_path ?w1 t2), ?w1\<lparr>paths := insert (defaultOutput_path ?w1 t2) (paths ?w1)\<rparr>)"
      by (rule defaultOutput_succeeds) (use ne n2 s2 m2 p2 in simp_all)
    with p2 have second: "defaultOutput t2 ?w1
        = (Inr ?p2, w\<lparr>paths := insert ?p2 (insert ?p1 (paths w))\<rparr>)" by simp
    from first second
    show "defaultOutput t1 w = (Inr ?p1, ?w1)
       \<and> defaultOutput t2 ?w1 = (Inr ?p2, w\<lparr>paths := insert ?p2 (insert ?p1 (paths w))\<rparr>)"
      by blast
  qed
  show ?thesis by (rule conjI [OF a conjI [OF b conjI [OF c conjI [OF d e]]]])
qed

lemma time_Format_shift:
  "time_Format example_time_before_shift = ''20241103013000''"
  "time_Format example_time_after_shift = ''20241103013000''"
  by (simp_all add: time_Format_def example_time_before_shift_def example_time_after_shift_def
      appendInt_def Let_def decimal.simps digit_char_def)

lemma defaultOutput_path_shift:
  "defaultOutput_path example_world example_time_before_shift = ''/tmp/generator-20241103013000''"
  "defaultOutput_path example_world example_time_after_shift = ''/tmp/generator-20241103013000''"
  by (simp_all add: defaultOutput_path_def time_Format_shift os_TempDir_def example_world_def
      filepath_Join_def filepath_Clean_def keepc_def clean_step_def)

lemma defaultOutput_path_next_second:
  "defaultOutput_path example_world (example_time\<lparr>second := 8\<rparr>) = ''/tmp/generator-20240309140508''"
  by (simp add: defaultOutput_path_def time_Format_def example_time_def appendInt_def Let_def
      decimal.simps digit_char_def os_TempDir_def example_world_def
      filepath_Join_def filepath_Clean_def keepc_def clean_step_def)

text \<open>
  On the example clock: a second call in the same second fails, a call one second later
  succeeds beside the first.
\<close>

theorem allocation_names_by_reading_witness:
  "defaultOutput example_time example_world
     = (Inr ''/tmp/generator-20240309140507'',
        example_world\<lparr>paths := {''/tmp/generator-20240309140507'', ''/tmp''}\<rparr>)
   \<and> defaultOutput (example_time\<lparr>nanosecond := 500\<rparr>)
        (example_world\<lparr>paths := {''/tmp/generator-20240309140507'', ''/tmp''}\<rparr>)
     = (Inl (Errorf ''default output path already exists: %s'' [''/tmp/generator-20240309140507'']),
        example_world\<lparr>paths := {''/tmp/generator-20240309140507'', ''/tmp''}\<rparr>)
   \<and> defaultOutput_path example_world example_time
       \<noteq> defaultOutput_path example_world (example_time\<lparr>second := 8\<rparr>)
   \<and> defaultOutput (example_time\<lparr>second := 8\<rparr>)
        (example_world\<lparr>paths := {''/tmp/generator-20240309140507'', ''/tmp''}\<rparr>)
     = (Inr ''/tmp/generator-20240309140508'',
        example_world\<lparr>paths := {''/tmp/generator-20240309140508'',
                                  ''/tmp/generator-20240309140507'', ''/tmp''}\<rparr>)"
proof -
  let ?p = "''/tmp/generator-20240309140507''" and ?q = "''/tmp/generator-20240309140508''"
  let ?w1 = "example_world\<lparr>paths := {?p, ''/tmp''}\<rparr>"
  let ?t2 = "example_time\<lparr>nanosecond := 500\<rparr>" and ?t3 = "example_time\<lparr>second := 8\<rparr>"
  have p: "defaultOutput_path example_world example_time = ?p"
    by (simp add: defaultOutput_path_example example_world_def)
  note q = defaultOutput_path_next_second
  have first: "defaultOutput example_time example_world = (Inr ?p, ?w1)"
    by (simp add: defaultOutput_example example_world_def)
  have same: "second_reading example_time = second_reading ?t2"
    by (simp add: second_reading_def)
  have nofault: "stat_fault example_world (defaultOutput_path example_world example_time) = None"
    by (simp add: example_world_def)
  have second: "defaultOutput ?t2 ?w1
      = (Inl (Errorf ''default output path already exists: %s'' [?p]), ?w1)"
    using allocation_names_by_reading [THEN conjunct2, THEN conjunct1,
        of example_time ?t2 example_world ?p ?w1] same nofault first
    by blast
  have valid: "valid_time example_time" "valid_time ?t3"
    by (simp_all add: valid_time_def example_time_def)
  have apart: "utc_offset example_time = utc_offset ?t3"
    "1000000000 \<le> \<bar>unix_nanos example_time - unix_nanos ?t3\<bar>"
    by (simp_all add: unix_nanos_def unix_seconds_def example_time_def)
  have ne: "defaultOutput_path example_world example_time
      \<noteq> defaultOutput_path example_world ?t3"
    using allocation_names_by_reading [THEN conjunct2, THEN conjunct2, THEN conjunct2,
        THEN conjunct1, of example_time ?t3 example_world] valid apart
    by blast
  have free: "defaultOutput_path example_world example_time \<notin> paths example_world"
    "defaultOutput_path example_world ?t3 \<notin> paths example_world"
    "stat_fault example_world (defaultOutput_path example_world example_time) = None"
    "stat_fault example_world (defaultOutput_path example_world ?t3) = None"
    "mkdir_fault example_world (defaultOutput_path example_world example_time) = None"
    "mkdir_fault example_world (defaultOutput_path example_world ?t3) = None"
    by (simp_all add: p q) (simp_all add: example_world_def)
  have both: "defaultOutput ?t3
        (example_world\<lparr>paths := insert (defaultOutput_path example_world example_time)
                                   (paths example_world)\<rparr>)
      = (Inr (defaultOutput_path example_world ?t3),
         example_world\<lparr>paths := insert (defaultOutput_path example_world ?t3)
                      (insert (defaultOutput_path example_world example_time)
                         (paths example_world))\<rparr>)"
    using allocation_names_by_reading [THEN conjunct2, THEN conjunct2, THEN conjunct2,
        THEN conjunct2, of example_world example_time ?t3] ne free
    by blast
  have third: "defaultOutput ?t3 ?w1
      = (Inr ?q, example_world\<lparr>paths := {?q, ?p, ''/tmp''}\<rparr>)"
    using both unfolding p q by (simp add: example_world_def)
  from first second ne third show ?thesis by blast
qed

text \<open>
  C6, as it is stated, fails. The two timestamps of the repeated hour are an hour apart
  and read the same, so they give the same path: the first call creates the directory
  and the second returns "default output path already exists".
\<close>

theorem allocation_distinct_counterexample:
  "valid_time example_time_before_shift \<and> valid_time example_time_after_shift
   \<and> unix_nanos example_time_after_shift - unix_nanos example_time_before_shift
       = 3600 * 1000000000
   \<and> defaultOutput_path example_world example_time_before_shift
       = defaultOutput_path example_world example_time_after_shift
   \<and> fst (defaultOutput example_time_before_shift example_world)
       = Inr ''/tmp/generator-20241103013000''
   \<and> fst (defaultOutput example_time_after_shift
            (snd (defaultOutput example_time_before_shift example_world)))
       = Inl (Errorf ''default output path already exists: %s'' [''/tmp/generator-20241103013000''])"
proof -
  have v: "valid_time example_time_before_shift \<and> valid_time example_time_after_shift"
    by (simp add: valid_time_def example_time_before_shift_def example_time_after_shift_def)
  have apart: "unix_nanos example_time_after_shift - unix_nanos example_time_before_shift
       = 3600 * 1000000000"
    by (simp add: unix_nanos_def unix_seconds_def example_time_before_shift_def
        example_time_after_shift_def)
  have first: "defaultOutput example_time_before_shift example_world
      = (Inr ''/tmp/generator-20241103013000'',
         example_world\<lparr>paths := {''/tmp/generator-20241103013000'', ''/tmp''}\<rparr>)"
    by (simp add: defaultOutput_def defaultOutput_path_shift os_Stat_def os_Mkdir_def Let_def)
      (simp add: example_world_def)
  have p': "defaultOutput_path (example_world\<lparr>paths := {''/tmp/generator-20241103013000'', ''/tmp''}\<rparr>)
      example_time_after_shift = ''/tmp/generator-20241103013000''"
    by (simp add: defaultOutput_path_paths defaultOutput_path_shift)
  have second: "defaultOutput example_time_after_shift
        (example_world\<lparr>paths := {''/tmp/generator-20241103013000'', ''/tmp''}\<rparr>)
      = (Inl (Errorf ''default output path already exists: %s'' [''/tmp/generator-20241103013000'']),
         example_world\<lparr>paths := {''/tmp/generator-20241103013000'', ''/tmp''}\<rparr>)"
    by (simp add: defaultOutput_def p' os_Stat_def Let_def) (simp add: example_world_def)
  from v apart first second show ?thesis by (simp add: defaultOutput_path_shift)
qed

end
